theory Spec2Isabelle
  imports Main
begin

section \<open>ScreenshotHelper: the two capture queues\<close>

text \<open>
  \<^verbatim>\<open>electron/ScreenshotHelper.ts\<close> keeps two arrays of file paths and the current view.
  The class is a record; every method takes the record and returns the updated one.
  Lines written with \<^verbatim>\<open>console.log\<close> are not part of the model; lines written with
  \<^verbatim>\<open>console.error\<close> are returned where a method produces them.
\<close>

datatype view = Queue | Solutions | Debug

record ScreenshotHelper =
  screenshotQueue :: "string list"
  extraScreenshotQueue :: "string list"
  view :: view

definition MAX_SCREENSHOTS :: nat where
  "MAX_SCREENSHOTS = 2"

text \<open>The constructor: both queues empty, the view as given (default \<^verbatim>\<open>"queue"\<close>).\<close>

definition newScreenshotHelper :: "view \<Rightarrow> ScreenshotHelper" where
  "newScreenshotHelper v =
     \<lparr>screenshotQueue = [], extraScreenshotQueue = [], view = v\<rparr>"

definition setView :: "view \<Rightarrow> ScreenshotHelper \<Rightarrow> ScreenshotHelper" where
  "setView v h = h\<lparr>view := v\<rparr>"

text \<open>\<^verbatim>\<open>Array.prototype.shift\<close>: drops the first element; nothing to drop on an empty array.\<close>

fun shift :: "'a list \<Rightarrow> 'a list" where
  "shift [] = []"
| "shift (x # xs) = xs"

text \<open>
  \<^verbatim>\<open>addToScreenshotQueue\<close>. The duplicate test reads \<^verbatim>\<open>this.screenshotQueue\<close> in every
  view; the view only selects the queue that receives the path.
\<close>

definition addToScreenshotQueue :: "string \<Rightarrow> ScreenshotHelper \<Rightarrow> ScreenshotHelper" where
  "addToScreenshotQueue filepath h =
     (if filepath \<notin> set (screenshotQueue h) then
        (if view h = Queue then
           (let q = (if length (screenshotQueue h) \<ge> MAX_SCREENSHOTS
                     then shift (screenshotQueue h) else screenshotQueue h)
            in h\<lparr>screenshotQueue := q @ [filepath]\<rparr>)
         else h\<lparr>extraScreenshotQueue := extraScreenshotQueue h @ [filepath]\<rparr>)
      else h)"

text \<open>A sequence of enqueue calls, in order.\<close>

fun addAll :: "string list \<Rightarrow> ScreenshotHelper \<Rightarrow> ScreenshotHelper" where
  "addAll [] h = h"
| "addAll (p # ps) h = addAll ps (addToScreenshotQueue p h)"

text \<open>
  File deletion is the environment's: \<open>unlink p\<close> is \<open>None\<close> when \<^verbatim>\<open>fs.unlink\<close> of \<open>p\<close>
  succeeds and \<open>Some msg\<close> when it fails with message \<open>msg\<close>. The outcome is taken per
  path: within one call each path is unlinked once as long as no path is queued twice.

  \<^verbatim>\<open>clearQueues\<close> starts an asynchronous unlink for every path of either queue; a failure
  only writes a \<^verbatim>\<open>console.error\<close> line from the callback. Both arrays are replaced by
  empty ones. The result is the new helper and the error lines.
\<close>

definition unlinkErrors :: "(string \<Rightarrow> string option) \<Rightarrow> string \<Rightarrow> string list \<Rightarrow> string list" where
  "unlinkErrors unlink what paths =
     concat (map (\<lambda>p. case unlink p of None \<Rightarrow> []
                        | Some msg \<Rightarrow> [what @ p @ '': '' @ msg]) paths)"

definition clearQueues ::
  "(string \<Rightarrow> string option) \<Rightarrow> ScreenshotHelper \<Rightarrow> ScreenshotHelper \<times> string list" where
  "clearQueues unlink h =
     (let e1 = unlinkErrors unlink ''Error deleting screenshot at '' (screenshotQueue h);
          h1 = h\<lparr>screenshotQueue := []\<rparr>;
          e2 = unlinkErrors unlink ''Error deleting extra screenshot at '' (extraScreenshotQueue h1);
          h2 = h1\<lparr>extraScreenshotQueue := []\<rparr>
      in (h2, e1 @ e2))"

text \<open>
  \<^verbatim>\<open>deleteScreenshot\<close>: the unlink is awaited inside \<^verbatim>\<open>try\<close>; only when it succeeds is the
  queue selected by the current view filtered. The caught failure becomes the result
  \<^verbatim>\<open>{ success: false, error: error.message }\<close>.
\<close>

record delete_result =
  success :: bool
  error :: "string option"

definition deleteScreenshot ::
  "(string \<Rightarrow> string option) \<Rightarrow> string \<Rightarrow> ScreenshotHelper \<Rightarrow> delete_result \<times> ScreenshotHelper" where
  "deleteScreenshot unlink path h =
     (case unlink path of
        None \<Rightarrow>
          (\<lparr>success = True, error = None\<rparr>,
           if view h = Queue
           then h\<lparr>screenshotQueue := filter (\<lambda>filePath. filePath \<noteq> path) (screenshotQueue h)\<rparr>
           else h\<lparr>extraScreenshotQueue := filter (\<lambda>filePath. filePath \<noteq> path) (extraScreenshotQueue h)\<rparr>)
      | Some msg \<Rightarrow> (\<lparr>success = False, error = Some msg\<rparr>, h))"







subsection \<open>Properties of the queues\<close>

text \<open>The \<open>n\<close> most recent entries of a sequence, oldest first.\<close>

definition newest :: "nat \<Rightarrow> 'a list \<Rightarrow> 'a list" where
  "newest n xs = drop (length xs - n) xs"

lemma newest_append: "newest n (newest n xs @ ys) = newest n (xs @ ys)"
proof -
  have "length xs + length ys - (length xs - n + n) + (length xs - n) = length xs + length ys - n"
    by arith
  then show ?thesis by (simp add: newest_def)
qed

lemma set_newest: "set (newest n xs) \<subseteq> set xs"
  by (simp add: newest_def set_drop_subset)

lemma distinct_newest: "distinct xs \<Longrightarrow> distinct (newest n xs)"
  by (simp add: newest_def)

lemma shift_length: "length (shift xs) = length xs - 1"
  by (cases xs) simp_all

lemma add_view [simp]: "view (addToScreenshotQueue p h) = view h"
  by (simp add: addToScreenshotQueue_def Let_def)

lemma add_extra_queue_view [simp]:
  "view h = Queue \<Longrightarrow> extraScreenshotQueue (addToScreenshotQueue p h) = extraScreenshotQueue h"
  by (simp add: addToScreenshotQueue_def Let_def)

lemma add_length_le:
  "length (screenshotQueue h) \<le> MAX_SCREENSHOTS \<Longrightarrow>
   length (screenshotQueue (addToScreenshotQueue p h)) \<le> MAX_SCREENSHOTS"
  by (simp add: addToScreenshotQueue_def Let_def MAX_SCREENSHOTS_def shift_length)

lemma addAll_view [simp]: "view (addAll ps h) = view h"
  by (induction ps arbitrary: h) simp_all

lemma addAll_extra [simp]:
  "view h = Queue \<Longrightarrow> extraScreenshotQueue (addAll ps h) = extraScreenshotQueue h"
  by (induction ps arbitrary: h) simp_all

lemma addAll_length_le:
  "length (screenshotQueue h) \<le> MAX_SCREENSHOTS \<Longrightarrow>
   length (screenshotQueue (addAll ps h)) \<le> MAX_SCREENSHOTS"
  by (induction ps arbitrary: h) (simp_all add: add_length_le)

lemma add_new_queue_view:
  assumes "view h = Queue" "p \<notin> set (screenshotQueue h)"
    "length (screenshotQueue h) \<le> MAX_SCREENSHOTS"
  shows "screenshotQueue (addToScreenshotQueue p h) =
           newest MAX_SCREENSHOTS (screenshotQueue h @ [p])"
proof (cases "screenshotQueue h")
  case Nil
  with assms show ?thesis
    by (simp add: addToScreenshotQueue_def Let_def MAX_SCREENSHOTS_def newest_def)
next
  case (Cons a list)
  with assms show ?thesis
    by (cases list) (simp_all add: addToScreenshotQueue_def Let_def MAX_SCREENSHOTS_def newest_def)
qed

lemma add_full_queue_view:
  assumes "view h = Queue" "p \<notin> set (screenshotQueue h)"
    "length (screenshotQueue h) = MAX_SCREENSHOTS"
  shows "screenshotQueue (addToScreenshotQueue p h) = shift (screenshotQueue h) @ [p]"
  using assms by (simp add: addToScreenshotQueue_def Let_def)

lemma addAll_fifo:
  "view h = Queue \<Longrightarrow> length (screenshotQueue h) \<le> MAX_SCREENSHOTS \<Longrightarrow>
   distinct (screenshotQueue h @ ps) \<Longrightarrow>
   screenshotQueue (addAll ps h) = newest MAX_SCREENSHOTS (screenshotQueue h @ ps)"
proof (induction ps arbitrary: h)
  case Nil
  then show ?case by (simp add: newest_def)
next
  case (Cons p ps)
  let ?h = "addToScreenshotQueue p h"
  have new: "p \<notin> set (screenshotQueue h)" using Cons.prems(3) by auto
  have q': "screenshotQueue ?h = newest MAX_SCREENSHOTS (screenshotQueue h @ [p])"
    using add_new_queue_view [OF Cons.prems(1) new Cons.prems(2)] .
  have "distinct (screenshotQueue h @ [p])" "set (screenshotQueue h @ [p]) \<inter> set ps = {}"
    "distinct ps"
    using Cons.prems(3) by auto
  then have d: "distinct (screenshotQueue ?h @ ps)"
    unfolding q' using set_newest [of MAX_SCREENSHOTS "screenshotQueue h @ [p]"]
    by (auto simp: distinct_newest)
  have "screenshotQueue (addAll ps ?h) = newest MAX_SCREENSHOTS (screenshotQueue ?h @ ps)"
    using Cons.IH [of ?h] Cons.prems(1) add_length_le [OF Cons.prems(2)] d by simp
  then show ?case
    unfolding q' by (simp add: newest_append)
qed

text \<open>
  Claim C3. In \<^verbatim>\<open>queue\<close> view, starting from a primary queue of at most two entries (the
  constructor's empty queue is one), every sequence of enqueue calls leaves at most two
  entries in the primary queue. An enqueue of a new path that finds two entries drops the
  front entry and appends the new path at the back; and after any run of new, pairwise
  different paths the queue holds the most recent two of all entries, in arrival order.
  A path that is already in the primary queue is not a new entry: the duplicate rule
  makes that call a no-op, so it neither exceeds the capacity nor evicts anything.
\<close>

theorem primary_queue_bounded_fifo:
  assumes "view h = Queue" and "length (screenshotQueue h) \<le> 2"
  shows "length (screenshotQueue (addAll ps h)) \<le> 2 \<and>
         (length (screenshotQueue h) = 2 \<and> p \<notin> set (screenshotQueue h) \<longrightarrow>
            screenshotQueue (addToScreenshotQueue p h) = shift (screenshotQueue h) @ [p]) \<and>
         (p \<in> set (screenshotQueue h) \<longrightarrow> addToScreenshotQueue p h = h) \<and>
         (distinct (screenshotQueue h @ ps) \<longrightarrow>
            screenshotQueue (addAll ps h) = newest 2 (screenshotQueue h @ ps))"
proof -
  have le: "length (screenshotQueue h) \<le> MAX_SCREENSHOTS"
    using assms(2) by (simp add: MAX_SCREENSHOTS_def)
  have "length (screenshotQueue (addAll ps h)) \<le> 2"
    using addAll_length_le [OF le] by (simp add: MAX_SCREENSHOTS_def)
  moreover have "screenshotQueue (addToScreenshotQueue p h) = shift (screenshotQueue h) @ [p]"
    if "length (screenshotQueue h) = 2" "p \<notin> set (screenshotQueue h)"
    using add_full_queue_view [OF assms(1) that(2)] that(1) by (simp add: MAX_SCREENSHOTS_def)
  moreover have "addToScreenshotQueue p h = h" if "p \<in> set (screenshotQueue h)"
    using that by (simp add: addToScreenshotQueue_def)
  moreover have "screenshotQueue (addAll ps h) = newest 2 (screenshotQueue h @ ps)"
    if "distinct (screenshotQueue h @ ps)"
    using addAll_fifo [OF assms(1) le that] by (simp add: MAX_SCREENSHOTS_def)
  ultimately show ?thesis by blast
qed

theorem primary_queue_bounded_fifo_witness:
  "view \<lparr>screenshotQueue = [''a'', ''b''], extraScreenshotQueue = [], view = Queue\<rparr> = Queue \<and>
   length (screenshotQueue \<lparr>screenshotQueue = [''a'', ''b''], extraScreenshotQueue = [], view = Queue\<rparr>) \<le> 2 \<and>
   screenshotQueue (addToScreenshotQueue ''c''
      \<lparr>screenshotQueue = [''a'', ''b''], extraScreenshotQueue = [], view = Queue\<rparr>) = [''b'', ''c''] \<and>
   screenshotQueue (addAll [''c'', ''d'']
      \<lparr>screenshotQueue = [''a'', ''b''], extraScreenshotQueue = [], view = Queue\<rparr>) = [''c'', ''d'']"
  using primary_queue_bounded_fifo
    [of "\<lparr>screenshotQueue = [''a'', ''b''], extraScreenshotQueue = [], view = Queue\<rparr>"
        "[''c'', ''d'']" "''c''"]
  by (simp add: newest_def)












text \<open>
  Claim C5. As stated the claim fails: the queue that is filtered is the one the current
  view selects, not the one that holds the path. In \<^verbatim>\<open>solutions\<close> view a path of the
  primary queue stays there although its file was deleted and success is reported.
\<close>

theorem deleteScreenshot_other_queue_counterexample:
  "deleteScreenshot (\<lambda>p. None) ''a.png''
     \<lparr>screenshotQueue = [''a.png''], extraScreenshotQueue = [], view = Solutions\<rparr>
   = (\<lparr>success = True, error = None\<rparr>,
      \<lparr>screenshotQueue = [''a.png''], extraScreenshotQueue = [], view = Solutions\<rparr>)"
  by (simp add: deleteScreenshot_def)

text \<open>
  Claim C5, amended. \<^verbatim>\<open>deleteScreenshot\<close> reports success exactly when the unlink
  succeeds. On success every occurrence of the path is removed from the queue selected by
  the current view (primary in \<^verbatim>\<open>queue\<close> view, secondary otherwise) and the other queue
  and the view are unchanged. On failure the helper is unchanged and the result carries
  the error message.
\<close>

theorem deleteScreenshot_gated_on_unlink:
  "(success (fst (deleteScreenshot unlink path h)) \<longleftrightarrow> unlink path = None) \<and>
   error (fst (deleteScreenshot unlink path h)) = unlink path \<and>
   (unlink path = None \<longrightarrow>
      snd (deleteScreenshot unlink path h) =
        (if view h = Queue
         then h\<lparr>screenshotQueue := removeAll path (screenshotQueue h)\<rparr>
         else h\<lparr>extraScreenshotQueue := removeAll path (extraScreenshotQueue h)\<rparr>)) \<and>
   (unlink path \<noteq> None \<longrightarrow> snd (deleteScreenshot unlink path h) = h)"
proof -
  have rm: "filter (\<lambda>filePath. filePath \<noteq> path) xs = removeAll path xs" for xs
    by (induction xs) auto
  show ?thesis
    by (cases "unlink path") (simp_all add: deleteScreenshot_def rm)
qed

theorem deleteScreenshot_gated_on_unlink_witness:
  "snd (deleteScreenshot (\<lambda>p. if p = ''b.png'' then Some ''EACCES'' else None) ''a.png''
     \<lparr>screenshotQueue = [''a.png'', ''b.png''], extraScreenshotQueue = [''a.png''], view = Queue\<rparr>)
   = \<lparr>screenshotQueue = [''b.png''], extraScreenshotQueue = [''a.png''], view = Queue\<rparr> \<and>
   deleteScreenshot (\<lambda>p. if p = ''b.png'' then Some ''EACCES'' else None) ''b.png''
     \<lparr>screenshotQueue = [''a.png'', ''b.png''], extraScreenshotQueue = [''a.png''], view = Queue\<rparr>
   = (\<lparr>success = False, error = Some ''EACCES''\<rparr>,
      \<lparr>screenshotQueue = [''a.png'', ''b.png''], extraScreenshotQueue = [''a.png''], view = Queue\<rparr>)"
  using deleteScreenshot_gated_on_unlink
    [of "\<lambda>p. if p = ''b.png'' then Some ''EACCES'' else None" "''a.png''"
        "\<lparr>screenshotQueue = [''a.png'', ''b.png''], extraScreenshotQueue = [''a.png''], view = Queue\<rparr>"]
    deleteScreenshot_gated_on_unlink
    [of "\<lambda>p. if p = ''b.png'' then Some ''EACCES'' else None" "''b.png''"
        "\<lparr>screenshotQueue = [''a.png'', ''b.png''], extraScreenshotQueue = [''a.png''], view = Queue\<rparr>"]
  by (simp add: prod_eq_iff delete_result.equality)

text \<open>
  Claim C6. Whatever the unlink calls do, \<^verbatim>\<open>clearQueues\<close> leaves both queues empty and
  the view as it was; each failing unlink contributes one \<^verbatim>\<open>console.error\<close> line and
  nothing else.
\<close>

theorem clearQueues_empties_both:
  "screenshotQueue (fst (clearQueues unlink h)) = [] \<and>
   extraScreenshotQueue (fst (clearQueues unlink h)) = [] \<and>
   view (fst (clearQueues unlink h)) = view h \<and>
   length (snd (clearQueues unlink h)) =
     length (filter (\<lambda>p. unlink p \<noteq> None) (screenshotQueue h @ extraScreenshotQueue h))"
proof -
  have n: "length (unlinkErrors unlink what ps) = length (filter (\<lambda>p. unlink p \<noteq> None) ps)"
    for what ps
    by (induction ps) (auto simp: unlinkErrors_def split: option.splits)
  show ?thesis
    by (simp add: clearQueues_def Let_def n)
qed


section \<open>Files and image normalisation\<close>

text \<open>
  The file system is a map from paths to file contents; \<^verbatim>\<open>fs.existsSync\<close> is definedness and
  \<^verbatim>\<open>fs.statSync(p).size\<close> the length of the contents. Everything the code hands to the
  operating system is a field of \<open>os_env\<close>: ImageMagick, the file copy, the screen capture
  and the path arithmetic of \<^verbatim>\<open>path.join\<close>, \<^verbatim>\<open>path.basename\<close> and \<^verbatim>\<open>app.getPath\<close>. A command
  returns the error message it throws, if any, and the file system it leaves.
\<close>

type_synonym fs = "string \<Rightarrow> string option"

datatype magick_cmd =
    CenterOnCanvas896   \<comment> \<open>\<^verbatim>\<open>-background white -gravity center -extent 896x896\<close>\<close>
  | ResizeSharpen896    \<comment> \<open>\<^verbatim>\<open>-resize 896x896 ... -sharpen 0x1.0 -quality 100\<close>\<close>
  | GrayEnhance         \<comment> \<open>\<^verbatim>\<open>-colorspace gray -auto-level -sharpen 0x1.2 -contrast-stretch 0%x25% -despeckle\<close>\<close>
  | ResizeGrayEnhance   \<comment> \<open>\<^verbatim>\<open>-resize 1600x1600 -colorspace gray -auto-level -sharpen 0x1.5 ...\<close>\<close>
  | SimplifiedGray      \<comment> \<open>\<^verbatim>\<open>-resize 1000x1000 -colorspace gray -contrast -sharpen 0x1.0\<close>\<close>

record os_env =
  normalizedPathOf :: "string \<Rightarrow> string"
    \<comment> \<open>\<^verbatim>\<open>path.join(getNormalizedDir(), path.basename(inputPath))\<close>\<close>
  identify :: "string \<Rightarrow> fs \<Rightarrow> string + (int option \<times> int option)"
    \<comment> \<open>\<^verbatim>\<open>magick identify -format "%wx%h"\<close>, split at \<^verbatim>\<open>x\<close> and mapped with \<^verbatim>\<open>Number\<close>;
        \<open>None\<close> stands for \<^verbatim>\<open>NaN\<close> or a missing component\<close>
  magick :: "magick_cmd \<Rightarrow> string \<Rightarrow> string \<Rightarrow> fs \<Rightarrow> string option \<times> fs"
    \<comment> \<open>\<^verbatim>\<open>execSync\<close> of one of the five command lines, input path, output path\<close>
  copyFileSync :: "string \<Rightarrow> string \<Rightarrow> fs \<Rightarrow> string option \<times> fs"
  newScreenshotPath :: string
    \<comment> \<open>the fresh \<^verbatim>\<open>screenshot-<timestamp>-<uuid>.png\<close> under the screenshots directory\<close>
  screencapture :: "string \<Rightarrow> fs \<Rightarrow> string option \<times> fs"
    \<comment> \<open>\<^verbatim>\<open>screencapture -x "<outputPath>"\<close>\<close>

text \<open>A comparison with \<^verbatim>\<open>NaN\<close> or \<^verbatim>\<open>undefined\<close> is false.\<close>

fun num_le :: "int option \<Rightarrow> int \<Rightarrow> bool" where
  "num_le None n = False"
| "num_le (Some w) n = (w \<le> n)"

definition nonEmptyFile :: "fs \<Rightarrow> string \<Rightarrow> bool" where
  "nonEmptyFile files p = (case files p of None \<Rightarrow> False | Some content \<Rightarrow> length content > 0)"

text \<open>
  The primary strategy: read the dimensions, run the command chosen by the size test,
  then accept the output only if it exists and is not empty. \<open>Inl\<close> is the exception that
  reaches the enclosing \<^verbatim>\<open>catch (magickError)\<close>.
\<close>

definition primaryStrategy ::
  "os_env \<Rightarrow> int \<Rightarrow> magick_cmd \<Rightarrow> magick_cmd \<Rightarrow> string \<Rightarrow> string \<Rightarrow> fs \<Rightarrow> (string + string) \<times> fs" where
  "primaryStrategy env targetSize small large inputPath normalizedPath files =
     (case identify env inputPath files of
        Inl e \<Rightarrow> (Inl e, files)
      | Inr (width, height) \<Rightarrow>
          (case magick env (if num_le width targetSize \<and> num_le height targetSize
                            then small else large) inputPath normalizedPath files of
             (Some e, files1) \<Rightarrow> (Inl e, files1)
           | (None, files1) \<Rightarrow>
               if nonEmptyFile files1 normalizedPath then (Inr normalizedPath, files1)
               else (Inl ''Normalized image file does not exist or is empty'', files1)))"

text \<open>
  \<^verbatim>\<open>ProcessingHelper.normalizeImage\<close>. \<open>normalizeImage_try\<close> is the body of the outer
  \<^verbatim>\<open>try\<close>; the outer \<^verbatim>\<open>catch\<close> turns whatever escapes it into the input path.
\<close>

definition normalizeImage_try :: "os_env \<Rightarrow> string \<Rightarrow> fs \<Rightarrow> (string + string) \<times> fs" where
  "normalizeImage_try env inputPath files =
     (let normalizedPath = normalizedPathOf env inputPath in
      if files normalizedPath \<noteq> None then (Inr normalizedPath, files)
      else
        (case primaryStrategy env 1600 GrayEnhance ResizeGrayEnhance inputPath normalizedPath files of
           (Inr p, files1) \<Rightarrow> (Inr p, files1)
         | (Inl magickError, files1) \<Rightarrow>
             (case magick env SimplifiedGray inputPath normalizedPath files1 of
                (None, files2) \<Rightarrow> (Inr normalizedPath, files2)
              | (Some fallbackError, files2) \<Rightarrow>
                  (case copyFileSync env inputPath normalizedPath files2 of
                     (None, files3) \<Rightarrow> (Inr normalizedPath, files3)
                   | (Some e, files3) \<Rightarrow> (Inl e, files3)))))"

definition normalizeImage :: "os_env \<Rightarrow> string \<Rightarrow> fs \<Rightarrow> string \<times> fs" where
  "normalizeImage env inputPath files =
     (case normalizeImage_try env inputPath files of
        (Inr p, files1) \<Rightarrow> (p, files1)
      | (Inl e, files1) \<Rightarrow> (inputPath, files1))"

text \<open>\<^verbatim>\<open>ScreenshotHelper.normalizeImage\<close>: the same shape with two strategies.\<close>

definition SH_normalizeImage_try :: "os_env \<Rightarrow> string \<Rightarrow> fs \<Rightarrow> (string + string) \<times> fs" where
  "SH_normalizeImage_try env inputPath files =
     (let normalizedPath = normalizedPathOf env inputPath in
      if files normalizedPath \<noteq> None then (Inr normalizedPath, files)
      else
        (case primaryStrategy env 896 CenterOnCanvas896 ResizeSharpen896 inputPath normalizedPath files of
           (Inr p, files1) \<Rightarrow> (Inr p, files1)
         | (Inl magickError, files1) \<Rightarrow>
             (case copyFileSync env inputPath normalizedPath files1 of
                (None, files2) \<Rightarrow> (Inr normalizedPath, files2)
              | (Some e, files2) \<Rightarrow> (Inl e, files2))))"

definition SH_normalizeImage :: "os_env \<Rightarrow> string \<Rightarrow> fs \<Rightarrow> string \<times> fs" where
  "SH_normalizeImage env inputPath files =
     (case SH_normalizeImage_try env inputPath files of
        (Inr p, files1) \<Rightarrow> (p, files1)
      | (Inl e, files1) \<Rightarrow> (inputPath, files1))"

text \<open>
  An environment without ImageMagick: \<^verbatim>\<open>identify\<close> and every \<^verbatim>\<open>magick\<close> command fail and
  leave the files alone; the copy works as a copy does and fails on a missing source.
  The normalised directory is \<^verbatim>\<open>/normalized\<close>.
\<close>

text \<open>\<^verbatim>\<open>path.basename\<close>: the last component of the path, trailing separators ignored.\<close>

definition basename :: "string \<Rightarrow> string" where
  "basename p =
     rev (takeWhile (\<lambda>c. c \<noteq> CHR ''/'') (dropWhile (\<lambda>c. c = CHR ''/'') (rev p)))"

definition noMagick :: os_env where
  "noMagick =
     \<lparr>normalizedPathOf = (\<lambda>p. ''/normalized/'' @ basename p),
      identify = (\<lambda>p files. Inl ''magick: command not found''),
      magick = (\<lambda>c i out files. (Some ''magick: command not found'', files)),
      copyFileSync = (\<lambda>src dst files. case files src of
                         None \<Rightarrow> (Some ''ENOENT'', files)
                       | Some content \<Rightarrow> (None, files(dst \<mapsto> content))),
      newScreenshotPath = ''/screenshots/s.png'',
      screencapture = (\<lambda>out files. (None, files(out \<mapsto> ''png'')))\<rparr>"

text \<open>
  Claim C9. As stated the claim fails twice. When the primary strategy, the simplified
  fallback and the copy have all failed, the exception that leaves the body of the outer
  \<^verbatim>\<open>try\<close> is caught and the input path is returned as an ordinary result; here nothing
  exists at that path. And a file that already exists at the normalised path is returned
  whether or not it is empty.
\<close>

theorem normalizeImage_swallows_failure_counterexample:
  "normalizeImage_try noMagick ''/screenshots/a.png'' Map.empty = (Inl ''ENOENT'', Map.empty) \<and>
   normalizeImage noMagick ''/screenshots/a.png'' Map.empty = (''/screenshots/a.png'', Map.empty) \<and>
   SH_normalizeImage noMagick ''/screenshots/a.png'' Map.empty = (''/screenshots/a.png'', Map.empty) \<and>
   \<not> nonEmptyFile Map.empty ''/screenshots/a.png'' \<and>
   fst (normalizeImage noMagick ''/screenshots/a.png'' [''/normalized/a.png'' \<mapsto> []])
     = ''/normalized/a.png'' \<and>
   \<not> nonEmptyFile [''/normalized/a.png'' \<mapsto> []] ''/normalized/a.png''"
  by (simp add: normalizeImage_def normalizeImage_try_def SH_normalizeImage_def
      SH_normalizeImage_try_def primaryStrategy_def noMagick_def nonEmptyFile_def Let_def
      basename_def)

text \<open>
  Claim C9, amended. Both \<^verbatim>\<open>normalizeImage\<close> functions always return a path, never an
  error: the normalised path or the input path. A file already at the normalised path is
  returned unchecked and nothing is run. The output of the primary ImageMagick strategy is
  accepted only if it exists and is not empty. The simplified grayscale and sharpen
  fallback (\<^verbatim>\<open>ProcessingHelper\<close> only) and the copy are taken at their word: when the
  command or the copy does not throw, the normalised path is returned. When all of them
  fail, the input path is returned.
\<close>

theorem normalizeImage_outcomes:
  "fst (normalizeImage env inputPath fs0) \<in> {normalizedPathOf env inputPath, inputPath} \<and>
   fst (SH_normalizeImage env inputPath fs0) \<in> {normalizedPathOf env inputPath, inputPath} \<and>
   (fs0 (normalizedPathOf env inputPath) \<noteq> None \<longrightarrow>
      normalizeImage env inputPath fs0 = (normalizedPathOf env inputPath, fs0) \<and>
      SH_normalizeImage env inputPath fs0 = (normalizedPathOf env inputPath, fs0)) \<and>
   (fs0 (normalizedPathOf env inputPath) = None \<longrightarrow>
      (\<forall>p fs1.
         primaryStrategy env 1600 GrayEnhance ResizeGrayEnhance inputPath
           (normalizedPathOf env inputPath) fs0 = (Inr p, fs1) \<longrightarrow>
         normalizeImage env inputPath fs0 = (normalizedPathOf env inputPath, fs1) \<and>
         nonEmptyFile fs1 (normalizedPathOf env inputPath)) \<and>
      (\<forall>p fs1.
         primaryStrategy env 896 CenterOnCanvas896 ResizeSharpen896 inputPath
           (normalizedPathOf env inputPath) fs0 = (Inr p, fs1) \<longrightarrow>
         SH_normalizeImage env inputPath fs0 = (normalizedPathOf env inputPath, fs1) \<and>
         nonEmptyFile fs1 (normalizedPathOf env inputPath)) \<and>
      (\<forall>e1 fs1 fs2.
         primaryStrategy env 1600 GrayEnhance ResizeGrayEnhance inputPath
           (normalizedPathOf env inputPath) fs0 = (Inl e1, fs1) \<and>
         magick env SimplifiedGray inputPath (normalizedPathOf env inputPath) fs1 = (None, fs2) \<longrightarrow>
         normalizeImage env inputPath fs0 = (normalizedPathOf env inputPath, fs2)) \<and>
      (\<forall>e1 fs1 e2 fs2 fs3.
         primaryStrategy env 1600 GrayEnhance ResizeGrayEnhance inputPath
           (normalizedPathOf env inputPath) fs0 = (Inl e1, fs1) \<and>
         magick env SimplifiedGray inputPath (normalizedPathOf env inputPath) fs1 = (Some e2, fs2) \<and>
         copyFileSync env inputPath (normalizedPathOf env inputPath) fs2 = (None, fs3) \<longrightarrow>
         normalizeImage env inputPath fs0 = (normalizedPathOf env inputPath, fs3)) \<and>
      (\<forall>e1 fs1 fs3.
         primaryStrategy env 896 CenterOnCanvas896 ResizeSharpen896 inputPath
           (normalizedPathOf env inputPath) fs0 = (Inl e1, fs1) \<and>
         copyFileSync env inputPath (normalizedPathOf env inputPath) fs1 = (None, fs3) \<longrightarrow>
         SH_normalizeImage env inputPath fs0 = (normalizedPathOf env inputPath, fs3)) \<and>
      (\<forall>e1 fs1 e2 fs2 e3 fs3.
         primaryStrategy env 1600 GrayEnhance ResizeGrayEnhance inputPath
           (normalizedPathOf env inputPath) fs0 = (Inl e1, fs1) \<and>
         magick env SimplifiedGray inputPath (normalizedPathOf env inputPath) fs1 = (Some e2, fs2) \<and>
         copyFileSync env inputPath (normalizedPathOf env inputPath) fs2 = (Some e3, fs3) \<longrightarrow>
         normalizeImage env inputPath fs0 = (inputPath, fs3)) \<and>
      (\<forall>e1 fs1 e3 fs3.
         primaryStrategy env 896 CenterOnCanvas896 ResizeSharpen896 inputPath
           (normalizedPathOf env inputPath) fs0 = (Inl e1, fs1) \<and>
         copyFileSync env inputPath (normalizedPathOf env inputPath) fs1 = (Some e3, fs3) \<longrightarrow>
         SH_normalizeImage env inputPath fs0 = (inputPath, fs3)))"
proof -
  let ?np = "normalizedPathOf env inputPath"
  have accepted: "p = np \<and> nonEmptyFile fs1 np"
    if "primaryStrategy env t small large inputPath np fs0 = (Inr p, fs1)"
    for t small large np p fs1
    using that
    by (auto simp: primaryStrategy_def split: sum.splits prod.splits option.splits if_splits)
  have a: "fst (normalizeImage env inputPath fs0) \<in> {?np, inputPath}"
    by (auto simp: normalizeImage_def normalizeImage_try_def Let_def
        split: sum.splits prod.splits option.splits dest: accepted)
  have b: "fst (SH_normalizeImage env inputPath fs0) \<in> {?np, inputPath}"
    by (auto simp: SH_normalizeImage_def SH_normalizeImage_try_def Let_def
        split: sum.splits prod.splits option.splits dest: accepted)
  have c: "normalizeImage env inputPath fs0 = (?np, fs0) \<and>
           SH_normalizeImage env inputPath fs0 = (?np, fs0)" if "fs0 ?np \<noteq> None"
    using that
    by (simp add: normalizeImage_def normalizeImage_try_def SH_normalizeImage_def
        SH_normalizeImage_try_def Let_def)
  have d: "normalizeImage env inputPath fs0 = (?np, fs1) \<and> nonEmptyFile fs1 ?np"
    if "fs0 ?np = None"
       "primaryStrategy env 1600 GrayEnhance ResizeGrayEnhance inputPath ?np fs0 = (Inr p, fs1)"
    for p fs1
    using that accepted [OF that(2)]
    by (simp add: normalizeImage_def normalizeImage_try_def Let_def)
  have e: "SH_normalizeImage env inputPath fs0 = (?np, fs1) \<and> nonEmptyFile fs1 ?np"
    if "fs0 ?np = None"
       "primaryStrategy env 896 CenterOnCanvas896 ResizeSharpen896 inputPath ?np fs0 = (Inr p, fs1)"
    for p fs1
    using that accepted [OF that(2)]
    by (simp add: SH_normalizeImage_def SH_normalizeImage_try_def Let_def)
  have f1: "normalizeImage env inputPath fs0 = (?np, fs2)"
    if "fs0 ?np = None"
       "primaryStrategy env 1600 GrayEnhance ResizeGrayEnhance inputPath ?np fs0 = (Inl e1, fs1)"
       "magick env SimplifiedGray inputPath ?np fs1 = (None, fs2)"
    for e1 fs1 fs2
    using that by (simp add: normalizeImage_def normalizeImage_try_def Let_def)
  have f2: "normalizeImage env inputPath fs0 = (?np, fs3)"
    if "fs0 ?np = None"
       "primaryStrategy env 1600 GrayEnhance ResizeGrayEnhance inputPath ?np fs0 = (Inl e1, fs1)"
       "magick env SimplifiedGray inputPath ?np fs1 = (Some e2, fs2)"
       "copyFileSync env inputPath ?np fs2 = (None, fs3)"
    for e1 fs1 e2 fs2 fs3
    using that by (simp add: normalizeImage_def normalizeImage_try_def Let_def)
  have f3: "SH_normalizeImage env inputPath fs0 = (?np, fs3)"
    if "fs0 ?np = None"
       "primaryStrategy env 896 CenterOnCanvas896 ResizeSharpen896 inputPath ?np fs0 = (Inl e1, fs1)"
       "copyFileSync env inputPath ?np fs1 = (None, fs3)"
    for e1 fs1 fs3
    using that by (simp add: SH_normalizeImage_def SH_normalizeImage_try_def Let_def)
  have f: "normalizeImage env inputPath fs0 = (inputPath, fs3)"
    if "fs0 ?np = None"
       "primaryStrategy env 1600 GrayEnhance ResizeGrayEnhance inputPath ?np fs0 = (Inl e1, fs1)"
       "magick env SimplifiedGray inputPath ?np fs1 = (Some e2, fs2)"
       "copyFileSync env inputPath ?np fs2 = (Some e3, fs3)"
    for e1 fs1 e2 fs2 e3 fs3
    using that by (simp add: normalizeImage_def normalizeImage_try_def Let_def)
  have g: "SH_normalizeImage env inputPath fs0 = (inputPath, fs3)"
    if "fs0 ?np = None"
       "primaryStrategy env 896 CenterOnCanvas896 ResizeSharpen896 inputPath ?np fs0 = (Inl e1, fs1)"
       "copyFileSync env inputPath ?np fs1 = (Some e3, fs3)"
    for e1 fs1 e3 fs3
    using that by (simp add: SH_normalizeImage_def SH_normalizeImage_try_def Let_def)
  show ?thesis
  proof (intro conjI impI allI, goal_cases)
    case 1 show ?case by (rule a)
  next
    case 2 show ?case by (rule b)
  next
    case 3 then show ?case using c by blast
  next
    case 4 then show ?case using c by blast
  next
    case 5 then show ?case using d by blast
  next
    case 6 then show ?case using d by blast
  next
    case 7 then show ?case using e by blast
  next
    case 8 then show ?case using e by blast
  next
    case 9 then show ?case using f1 by blast
  next
    case 10 then show ?case using f2 by blast
  next
    case 11 then show ?case using f3 by blast
  next
    case 12 then show ?case using f by blast
  next
    case 13 then show ?case using g by blast
  qed
qed

text \<open>
  Witnesses: a file already at the normalised path is returned; with ImageMagick working,
  the primary output is; with ImageMagick missing and the source present, the copy is;
  with the source missing as well, the input path is.
\<close>

definition withMagick :: os_env where
  "withMagick = noMagick
     \<lparr>identify := (\<lambda>p files. Inr (Some 800, Some 600)),
      magick := (\<lambda>c i out files. (None, files(out \<mapsto> ''gray'')))\<rparr>"

theorem normalizeImage_outcomes_witness:
  "normalizeImage noMagick ''/s/a.png'' [''/normalized/a.png'' \<mapsto> ''old'']
     = (''/normalized/a.png'', [''/normalized/a.png'' \<mapsto> ''old'']) \<and>
   fst (normalizeImage withMagick ''/s/a.png'' [''/s/a.png'' \<mapsto> ''raw'']) = ''/normalized/a.png'' \<and>
   nonEmptyFile (snd (normalizeImage withMagick ''/s/a.png'' [''/s/a.png'' \<mapsto> ''raw''])) ''/normalized/a.png'' \<and>
   fst (SH_normalizeImage withMagick ''/s/a.png'' [''/s/a.png'' \<mapsto> ''raw'']) = ''/normalized/a.png'' \<and>
   normalizeImage noMagick ''/s/a.png'' [''/s/a.png'' \<mapsto> ''raw'']
     = (''/normalized/a.png'', [''/s/a.png'' \<mapsto> ''raw'', ''/normalized/a.png'' \<mapsto> ''raw'']) \<and>
   SH_normalizeImage noMagick ''/s/a.png'' [''/s/a.png'' \<mapsto> ''raw'']
     = (''/normalized/a.png'', [''/s/a.png'' \<mapsto> ''raw'', ''/normalized/a.png'' \<mapsto> ''raw'']) \<and>
   normalizeImage noMagick ''/s/a.png'' Map.empty = (''/s/a.png'', Map.empty) \<and>
   SH_normalizeImage noMagick ''/s/a.png'' Map.empty = (''/s/a.png'', Map.empty)"
proof -
  have np: "normalizedPathOf noMagick ''/s/a.png'' = ''/normalized/a.png''"
    "normalizedPathOf withMagick ''/s/a.png'' = ''/normalized/a.png''"
    by (simp_all add: noMagick_def withMagick_def basename_def)
  have p1: "primaryStrategy withMagick 1600 GrayEnhance ResizeGrayEnhance ''/s/a.png''
        ''/normalized/a.png'' [''/s/a.png'' \<mapsto> ''raw'']
      = (Inr ''/normalized/a.png'', [''/s/a.png'' \<mapsto> ''raw'', ''/normalized/a.png'' \<mapsto> ''gray''])"
    by (simp add: primaryStrategy_def withMagick_def noMagick_def nonEmptyFile_def)
  have p2: "primaryStrategy withMagick 896 CenterOnCanvas896 ResizeSharpen896 ''/s/a.png''
        ''/normalized/a.png'' [''/s/a.png'' \<mapsto> ''raw'']
      = (Inr ''/normalized/a.png'', [''/s/a.png'' \<mapsto> ''raw'', ''/normalized/a.png'' \<mapsto> ''gray''])"
    by (simp add: primaryStrategy_def withMagick_def noMagick_def nonEmptyFile_def)
  have p3: "primaryStrategy noMagick 1600 GrayEnhance ResizeGrayEnhance ''/s/a.png''
        ''/normalized/a.png'' fsA = (Inl ''magick: command not found'', fsA)"
    "primaryStrategy noMagick 896 CenterOnCanvas896 ResizeSharpen896 ''/s/a.png''
        ''/normalized/a.png'' fsA = (Inl ''magick: command not found'', fsA)"
    "magick noMagick SimplifiedGray ''/s/a.png'' ''/normalized/a.png'' fsA
      = (Some ''magick: command not found'', fsA)" for fsA
    by (simp_all add: primaryStrategy_def noMagick_def)
  have p4: "copyFileSync noMagick ''/s/a.png'' ''/normalized/a.png'' Map.empty = (Some ''ENOENT'', Map.empty)"
    "copyFileSync noMagick ''/s/a.png'' ''/normalized/a.png'' [''/s/a.png'' \<mapsto> ''raw'']
      = (None, [''/s/a.png'' \<mapsto> ''raw'', ''/normalized/a.png'' \<mapsto> ''raw''])"
    by (simp_all add: noMagick_def)
  show ?thesis
    using normalizeImage_outcomes [of noMagick "''/s/a.png''" "[''/normalized/a.png'' \<mapsto> ''old'']"]
      normalizeImage_outcomes [of withMagick "''/s/a.png''" "[''/s/a.png'' \<mapsto> ''raw'']"]
      normalizeImage_outcomes [of noMagick "''/s/a.png''" "[''/s/a.png'' \<mapsto> ''raw'']"]
      normalizeImage_outcomes [of noMagick "''/s/a.png''" Map.empty]
      np p1 p2 p3 p4
    by simp
qed

section \<open>The main process state and \<^verbatim>\<open>takeScreenshot\<close>\<close>

text \<open>
  JavaScript values that cross the boundary to the renderer: the \<^verbatim>\<open>problemInfo\<close> object is
  typed \<^verbatim>\<open>any\<close> in the source, so it is an object with whatever keys it was given, in
  insertion order.
\<close>

datatype jsval =
    JNull
  | JBool bool
  | JNum int
  | JStr string
  | JArr "jsval list"
  | JObj "(string \<times> jsval) list"

text \<open>The channels of \<^verbatim>\<open>state.PROCESSING_EVENTS\<close>.\<close>

datatype channel =
    INITIAL_START
  | INITIAL_SOLUTION_SUCCESS
  | INITIAL_SOLUTION_ERROR
  | PROBLEM_EXTRACTED
  | SOLUTION_SUCCESS
  | DEBUG_START
  | DEBUG_SUCCESS
  | DEBUG_ERROR
  | NO_SCREENSHOTS
  | RESET
  | SCREENSHOT_IN_PROGRESS

text \<open>
  What the main process does to the outside, in order: messages sent to the renderer with
  \<^verbatim>\<open>webContents.send\<close>, calls to the window manager, and the screen capture command.
\<close>

datatype effect =
    Send channel jsval
  | HideMainWindow
  | ShowMainWindow
  | CreateWindow
  | ScreenCapture string

text \<open>
  The window is there or it is \<^verbatim>\<open>null\<close>; a destroyed \<^verbatim>\<open>BrowserWindow\<close> is outside this
  model, so \<^verbatim>\<open>isDestroyed()\<close> is false wherever the source asks.
\<close>

datatype window = NoWindow | LiveWindow

text \<open>
  The fields of \<^verbatim>\<open>state\<close> in the main module that the coordinator reads or writes, the two
  controller fields of \<^verbatim>\<open>ProcessingHelper\<close>, the files, and the effects so far. An
  \<^verbatim>\<open>AbortController\<close> is a number; \<open>abortedControllers\<close> lists the ones whose \<^verbatim>\<open>abort()\<close>
  has been called, so that a run holding an old signal sees a later abort.
\<close>

record app_state =
  mainWindow :: window
  isWindowVisible :: bool
  screenshotHelper :: "ScreenshotHelper option"
  state_view :: view
  problemInfo :: "jsval option"
  hasDebugged :: bool
  screenshotInProgress :: bool
  files :: fs
  effects :: "effect list"
  currentProcessingAbortController :: "nat option"
  currentExtraProcessingAbortController :: "nat option"
  abortedControllers :: "nat list"
  controllersCreated :: nat

definition webContents_send :: "channel \<Rightarrow> jsval \<Rightarrow> app_state \<Rightarrow> app_state" where
  "webContents_send ev data s = s\<lparr>effects := effects s @ [Send ev data]\<rparr>"

definition notifyRenderer :: "channel \<Rightarrow> jsval \<Rightarrow> app_state \<Rightarrow> app_state" where
  "notifyRenderer ev data s =
     (if mainWindow s = LiveWindow then webContents_send ev data s else s)"

definition app_setView :: "view \<Rightarrow> app_state \<Rightarrow> app_state" where
  "app_setView v s =
     s\<lparr>state_view := v, screenshotHelper := map_option (setView v) (screenshotHelper s)\<rparr>"

definition getScreenshotQueue :: "app_state \<Rightarrow> string list" where
  "getScreenshotQueue s = (case screenshotHelper s of None \<Rightarrow> [] | Some h \<Rightarrow> screenshotQueue h)"

definition getExtraScreenshotQueue :: "app_state \<Rightarrow> string list" where
  "getExtraScreenshotQueue s =
     (case screenshotHelper s of None \<Rightarrow> [] | Some h \<Rightarrow> extraScreenshotQueue h)"

text \<open>
  The window manager is a collaborator: hiding and showing are recorded as effects with
  the visibility flag they set. \<^verbatim>\<open>hideMainWindow\<close> dereferences a \<^verbatim>\<open>null\<close> window and throws;
  \<^verbatim>\<open>showMainWindow\<close> asks for a new window instead.
\<close>

definition nullPropertyError :: "string \<Rightarrow> string" where
  "nullPropertyError name =
     ''Cannot read properties of null (reading '' @ [CHR 0x27] @ name @ [CHR 0x27] @ '')''"

definition hideMainWindow :: "app_state \<Rightarrow> string + app_state" where
  "hideMainWindow s =
     (case mainWindow s of
        NoWindow \<Rightarrow> Inl (nullPropertyError ''isFullScreen'')
      | LiveWindow \<Rightarrow> Inr (s\<lparr>isWindowVisible := False, effects := effects s @ [HideMainWindow]\<rparr>))"

definition showMainWindow :: "app_state \<Rightarrow> app_state" where
  "showMainWindow s =
     (case mainWindow s of
        NoWindow \<Rightarrow> s\<lparr>effects := effects s @ [CreateWindow]\<rparr>
      | LiveWindow \<Rightarrow> s\<lparr>isWindowVisible := True, effects := effects s @ [ShowMainWindow]\<rparr>)"

text \<open>
  The static \<^verbatim>\<open>ScreenshotHelper.takeScreenshot\<close>: run the capture command, check that the
  file is there and not empty, normalise it. Its result object is either
  \<^verbatim>\<open>{ success: true, filePath }\<close> or \<^verbatim>\<open>{ success: false, error }\<close>; it never throws.
\<close>

datatype capture_result = Captured string | CaptureFailed string

definition SH_takeScreenshot :: "os_env \<Rightarrow> fs \<Rightarrow> capture_result \<times> fs" where
  "SH_takeScreenshot env fs0 =
     (let outputPath = newScreenshotPath env in
      case screencapture env outputPath fs0 of
        (Some execErr, fs1) \<Rightarrow>
          (CaptureFailed (if execErr = [] then ''Unknown error taking screenshot'' else execErr), fs1)
      | (None, fs1) \<Rightarrow>
          (case fs1 outputPath of
             None \<Rightarrow> (CaptureFailed ''Screenshot file was not created'', fs1)
           | Some content \<Rightarrow>
               if length content > 0
               then (let (normalizedPath, fs2) = SH_normalizeImage env outputPath fs1
                     in (Captured normalizedPath, fs2))
               else (CaptureFailed ''Screenshot file is empty (0 bytes)'', fs1)))"

text \<open>
  \<^verbatim>\<open>takeScreenshot\<close> of the main module. \<open>Inr\<close> is the string the promise resolves to, \<open>Inl\<close>
  the message of the error it rejects with. The \<^verbatim>\<open>catch\<close> block clears the flag, notifies
  the renderer and rethrows; the \<^verbatim>\<open>throw\<close> of the failure branch passes through it too.
\<close>

definition takeScreenshot_catch :: "string \<Rightarrow> app_state \<Rightarrow> (string + string) \<times> app_state" where
  "takeScreenshot_catch e s =
     (Inl e, notifyRenderer SCREENSHOT_IN_PROGRESS (JBool False) (s\<lparr>screenshotInProgress := False\<rparr>))"

definition takeScreenshot_failed :: "string \<Rightarrow> app_state \<Rightarrow> (string + string) \<times> app_state" where
  "takeScreenshot_failed msg s =
     takeScreenshot_catch msg
       (notifyRenderer SCREENSHOT_IN_PROGRESS (JBool False) (s\<lparr>screenshotInProgress := False\<rparr>))"

definition takeScreenshot :: "os_env \<Rightarrow> app_state \<Rightarrow> (string + string) \<times> app_state" where
  "takeScreenshot env s =
     (if screenshotInProgress s then (Inr [], s)
      else
        (let s1 = notifyRenderer SCREENSHOT_IN_PROGRESS (JBool True) s;
             s2 = s1\<lparr>screenshotInProgress := True\<rparr>;
             wasVisible = isWindowVisible s2
         in case (if wasVisible then hideMainWindow s2 else Inr s2) of
              Inl e \<Rightarrow> takeScreenshot_catch e s2
            | Inr s3 \<Rightarrow>
                (let (result, fs1) = SH_takeScreenshot env (files s3);
                     s4 = s3\<lparr>files := fs1,
                             effects := effects s3 @ [ScreenCapture (newScreenshotPath env)]\<rparr>;
                     s5 = (if wasVisible then showMainWindow s4 else s4)
                 in case result of
                      Captured filePath \<Rightarrow>
                        if filePath \<noteq> [] then
                          (let s6 = (case screenshotHelper s5 of
                                       None \<Rightarrow> s5
                                     | Some h \<Rightarrow>
                                         s5\<lparr>screenshotHelper := Some (addToScreenshotQueue filePath h)\<rparr>);
                               s7 = s6\<lparr>screenshotInProgress := False\<rparr>
                           in (Inr filePath, notifyRenderer SCREENSHOT_IN_PROGRESS (JBool False) s7))
                        else takeScreenshot_failed ''Screenshot failed'' s5
                    | CaptureFailed err \<Rightarrow>
                        takeScreenshot_failed (if err = [] then ''Screenshot failed'' else err) s5)))"

text \<open>The state after start-up, with a helper in \<^verbatim>\<open>queue\<close> view and a visible window.\<close>

definition initialState :: app_state where
  "initialState =
     \<lparr>mainWindow = LiveWindow, isWindowVisible = True,
      screenshotHelper = Some (newScreenshotHelper Queue), state_view = Queue,
      problemInfo = None, hasDebugged = False, screenshotInProgress = False,
      files = Map.empty, effects = [],
      currentProcessingAbortController = None, currentExtraProcessingAbortController = None,
      abortedControllers = [], controllersCreated = 0\<rparr>"

text \<open>
  For contrast with the guarded call: from the idle state the window is hidden, the screen
  is captured, the window is shown again and the normalised path joins the primary queue.
\<close>

lemma takeScreenshot_idle:
  "fst (takeScreenshot noMagick initialState) = Inr ''/normalized/s.png'' \<and>
   effects (snd (takeScreenshot noMagick initialState)) =
     [Send SCREENSHOT_IN_PROGRESS (JBool True), HideMainWindow,
      ScreenCapture ''/screenshots/s.png'', ShowMainWindow,
      Send SCREENSHOT_IN_PROGRESS (JBool False)] \<and>
   getScreenshotQueue (snd (takeScreenshot noMagick initialState)) = [''/normalized/s.png'']"
  by (simp add: takeScreenshot_def initialState_def notifyRenderer_def webContents_send_def
      hideMainWindow_def showMainWindow_def SH_takeScreenshot_def SH_normalizeImage_def
      SH_normalizeImage_try_def primaryStrategy_def noMagick_def Let_def basename_def
      newScreenshotHelper_def addToScreenshotQueue_def MAX_SCREENSHOTS_def getScreenshotQueue_def)

text \<open>
  Claim C10. While \<open>screenshotInProgress\<close> is set, \<^verbatim>\<open>takeScreenshot\<close> resolves to the empty
  string and the whole state is as before: no capture command and no message in the
  effects, both queues, the files and the flag itself untouched.
\<close>

theorem takeScreenshot_in_progress:
  "screenshotInProgress s \<Longrightarrow> takeScreenshot env s = (Inr [], s)"
  by (simp add: takeScreenshot_def)

theorem takeScreenshot_in_progress_witness:
  "screenshotInProgress (initialState\<lparr>screenshotInProgress := True\<rparr>) \<and>
   takeScreenshot noMagick (initialState\<lparr>screenshotInProgress := True\<rparr>)
     = (Inr [], initialState\<lparr>screenshotInProgress := True\<rparr>)"
  using takeScreenshot_in_progress [of "initialState\<lparr>screenshotInProgress := True\<rparr>" noMagick]
  by simp

section \<open>JavaScript strings and regular expressions\<close>

text \<open>
  The interpreters are written with \<^verbatim>\<open>String\<close> methods and regular expression literals.
  A \<open>string\<close> stands for a JavaScript string whose code units are below 256. Regular
  expressions are syntax trees, one constructor per construct the literals of this
  repository use, and \<open>matchesAt\<close> gives them the backtracking semantics of the language:
  it lists, in the order the backtracking matcher tries them, the states in which a
  pattern can finish from a given state. The first element is the match the engine takes.
\<close>

definition isDigit :: "char \<Rightarrow> bool" where
  "isDigit c = (c \<in> set ''0123456789'')"

definition upperLetters :: string where
  "upperLetters = ''ABCDEFGHIJKLMNOPQRSTUVWXYZ''"

definition lowerLetters :: string where
  "lowerLetters = ''abcdefghijklmnopqrstuvwxyz''"

definition isUpper :: "char \<Rightarrow> bool" where
  "isUpper c = (c \<in> set upperLetters)"

definition isLower :: "char \<Rightarrow> bool" where
  "isLower c = (c \<in> set lowerLetters)"

text \<open>\<^verbatim>\<open>\w\<close> is \<^verbatim>\<open>[A-Za-z0-9_]\<close>.\<close>

definition isWord :: "char \<Rightarrow> bool" where
  "isWord c = (isUpper c \<or> isLower c \<or> isDigit c \<or> c = CHR ''_'')"

text \<open>
  \<^verbatim>\<open>\s\<close> and the characters \<^verbatim>\<open>trim\<close> removes: tab, line feed, vertical tab, form feed,
  carriage return, space and the no-break space (the members below 256).
\<close>

definition isSpace :: "char \<Rightarrow> bool" where
  "isSpace c = (c \<in> set [CHR 0x09, CHR 0x0A, CHR 0x0B, CHR 0x0C, CHR 0x0D, CHR 0x20, CHR 0xA0])"

text \<open>Line terminators, which \<^verbatim>\<open>.\<close> does not match without the \<^verbatim>\<open>s\<close> flag.\<close>

definition isLineTerminator :: "char \<Rightarrow> bool" where
  "isLineTerminator c = (c \<in> set [CHR 0x0A, CHR 0x0D])"

text \<open>Canonicalisation under the \<^verbatim>\<open>i\<close> flag: upper case, for the letters of ASCII.\<close>

definition toUpper :: "char \<Rightarrow> char" where
  "toUpper c = (case map_of (zip lowerLetters upperLetters) c of None \<Rightarrow> c | Some u \<Rightarrow> u)"

definition canon :: "bool \<Rightarrow> char \<Rightarrow> char" where
  "canon ignoreCase c = (if ignoreCase then toUpper c else c)"

datatype cls_item =
    CChar char          \<comment> \<open>a single character\<close>
  | CWord               \<comment> \<open>\<^verbatim>\<open>\w\<close>\<close>
  | CDigit              \<comment> \<open>\<^verbatim>\<open>\d\<close>\<close>
  | CSpace              \<comment> \<open>\<^verbatim>\<open>\s\<close>\<close>
  | CNotSpace           \<comment> \<open>\<^verbatim>\<open>\S\<close>\<close>

datatype regex =
    Eps
  | Chr char                    \<comment> \<open>a literal character\<close>
  | Dot                         \<comment> \<open>\<^verbatim>\<open>.\<close>\<close>
  | Cls bool "cls_item list"    \<comment> \<open>\<^verbatim>\<open>[...]\<close>; \<open>True\<close> for the negated \<^verbatim>\<open>[^...]\<close>\<close>
  | Seq regex regex
  | Alt regex regex             \<comment> \<open>\<^verbatim>\<open>r|s\<close>, left first\<close>
  | Star bool regex             \<comment> \<open>\<^verbatim>\<open>r*\<close> (\<open>True\<close>, greedy) or \<^verbatim>\<open>r*?\<close> (\<open>False\<close>, lazy)\<close>
  | Group nat regex             \<comment> \<open>capture group number \<open>n\<close>\<close>
  | Look regex                  \<comment> \<open>\<^verbatim>\<open>(?=r)\<close>\<close>
  | Bol                         \<comment> \<open>\<^verbatim>\<open>^\<close> without the \<^verbatim>\<open>m\<close> flag\<close>
  | Eol                         \<comment> \<open>\<^verbatim>\<open>$\<close> without the \<^verbatim>\<open>m\<close> flag\<close>

text \<open>Derived forms: \<^verbatim>\<open>r+\<close>, \<^verbatim>\<open>r?\<close>, a literal string, a sequence, an alternation.\<close>

definition Plus :: "bool \<Rightarrow> regex \<Rightarrow> regex" where
  "Plus greedy r = Seq r (Star greedy r)"

definition Opt :: "regex \<Rightarrow> regex" where
  "Opt r = Alt r Eps"

definition Lit :: "string \<Rightarrow> regex" where
  "Lit s = foldr (\<lambda>c r. Seq (Chr c) r) s Eps"

definition Seqs :: "regex list \<Rightarrow> regex" where
  "Seqs rs = foldr Seq rs Eps"

fun Alts :: "regex list \<Rightarrow> regex" where
  "Alts [] = Cls False []"
| "Alts [r] = r"
| "Alts (r # rs) = Alt r (Alts rs)"

record flags =
  ignoreCase :: bool
  dotAll :: bool

definition noFlags :: flags where
  "noFlags = \<lparr>ignoreCase = False, dotAll = False\<rparr>"

definition flag_i :: flags where
  "flag_i = \<lparr>ignoreCase = True, dotAll = False\<rparr>"

definition flag_is :: flags where
  "flag_is = \<lparr>ignoreCase = True, dotAll = True\<rparr>"

definition flag_s :: flags where
  "flag_s = \<lparr>ignoreCase = False, dotAll = True\<rparr>"

fun clsItemMatches :: "bool \<Rightarrow> cls_item \<Rightarrow> char \<Rightarrow> bool" where
  "clsItemMatches ic (CChar d) c = (canon ic c = canon ic d)"
| "clsItemMatches ic CWord c = isWord c"
| "clsItemMatches ic CDigit c = isDigit c"
| "clsItemMatches ic CSpace c = isSpace c"
| "clsItemMatches ic CNotSpace c = (\<not> isSpace c)"

definition clsMatches :: "bool \<Rightarrow> bool \<Rightarrow> cls_item list \<Rightarrow> char \<Rightarrow> bool" where
  "clsMatches ic negated items c = (list_ex (\<lambda>it. clsItemMatches ic it c) items \<noteq> negated)"

text \<open>
  A matcher state: the index reached, the input from there on, and the captures set so
  far (the latest binding of a group first). The empty negated class \<^verbatim>\<open>[^]\<close> and
  \<^verbatim>\<open>[\s\S]\<close> match any character. A group keeps the text of its last iteration; no
  pattern here reads a group that stands inside a repetition.
\<close>

type_synonym captures = "(nat \<times> string) list"
type_synonym mstate = "nat \<times> string \<times> captures"

text \<open>
  Repetition. An iteration that consumes nothing is rejected, so every iteration moves
  on by at least one character and the length of the remaining input bounds their number:
  with that much fuel the recursion never stops early.
\<close>

fun iterate :: "nat \<Rightarrow> bool \<Rightarrow> (mstate \<Rightarrow> mstate list) \<Rightarrow> mstate \<Rightarrow> mstate list" where
  "iterate 0 greedy step s = [s]"
| "iterate (Suc n) greedy step s =
     (let more = concat (map (iterate n greedy step) (filter (\<lambda>s'. fst s < fst s') (step s)))
      in if greedy then more @ [s] else s # more)"

fun oneChar :: "(char \<Rightarrow> bool) \<Rightarrow> mstate \<Rightarrow> mstate list" where
  "oneChar P (i, [], cs) = []"
| "oneChar P (i, c # rest, cs) = (if P c then [(Suc i, rest, cs)] else [])"

primrec matchesAt :: "regex \<Rightarrow> flags \<Rightarrow> mstate \<Rightarrow> mstate list" where
  "matchesAt Eps fl s = [s]"
| "matchesAt (Chr d) fl s = oneChar (\<lambda>c. canon (ignoreCase fl) c = canon (ignoreCase fl) d) s"
| "matchesAt Dot fl s = oneChar (\<lambda>c. dotAll fl \<or> \<not> isLineTerminator c) s"
| "matchesAt (Cls negated items) fl s = oneChar (clsMatches (ignoreCase fl) negated items) s"
| "matchesAt (Seq r1 r2) fl s = concat (map (matchesAt r2 fl) (matchesAt r1 fl s))"
| "matchesAt (Alt r1 r2) fl s = matchesAt r1 fl s @ matchesAt r2 fl s"
| "matchesAt (Star greedy r) fl s = iterate (length (fst (snd s))) greedy (matchesAt r fl) s"
| "matchesAt (Group n r) fl s =
     map (\<lambda>(j, rest, cs). (j, rest, (n, take (j - fst s) (fst (snd s))) # cs)) (matchesAt r fl s)"
| "matchesAt (Look r) fl s =
     (case matchesAt r fl s of [] \<Rightarrow> [] | (j, rest, cs) # _ \<Rightarrow> [(fst s, fst (snd s), cs)])"
| "matchesAt Bol fl s = (if fst s = 0 then [s] else [])"
| "matchesAt Eol fl s = (if fst (snd s) = [] then [s] else [])"

text \<open>
  A match: where it starts, the matched text, and the captures. \<open>execFrom\<close> tries the
  start positions from left to right, as \<^verbatim>\<open>RegExp.prototype.exec\<close> does.
\<close>

record rmatch =
  m_index :: nat
  m_text :: string
  m_caps :: captures

fun execFrom :: "regex \<Rightarrow> flags \<Rightarrow> nat \<Rightarrow> string \<Rightarrow> rmatch option" where
  "execFrom r fl i rest =
     (case matchesAt r fl (i, rest, []) of
        (j, _, cs) # _ \<Rightarrow> Some \<lparr>m_index = i, m_text = take (j - i) rest, m_caps = cs\<rparr>
      | [] \<Rightarrow> (case rest of [] \<Rightarrow> None | c # rest' \<Rightarrow> execFrom r fl (Suc i) rest'))"

text \<open>\<^verbatim>\<open>str.match(re)\<close> without the \<^verbatim>\<open>g\<close> flag, \<^verbatim>\<open>re.test(str)\<close>, \<^verbatim>\<open>str.search(re)\<close>.\<close>

definition re_match :: "regex \<Rightarrow> flags \<Rightarrow> string \<Rightarrow> rmatch option" where
  "re_match r fl s = execFrom r fl 0 s"

definition re_test :: "regex \<Rightarrow> flags \<Rightarrow> string \<Rightarrow> bool" where
  "re_test r fl s = (re_match r fl s \<noteq> None)"

definition re_search :: "regex \<Rightarrow> flags \<Rightarrow> string \<Rightarrow> int" where
  "re_search r fl s = (case re_match r fl s of None \<Rightarrow> -1 | Some m \<Rightarrow> int (m_index m))"

text \<open>The text of capture group \<open>n\<close>; \<open>None\<close> is \<^verbatim>\<open>undefined\<close>.\<close>

definition group :: "rmatch \<Rightarrow> nat \<Rightarrow> string option" where
  "group m n = map_of (m_caps m) n"

text \<open>
  All matches under the \<^verbatim>\<open>g\<close> flag (\<^verbatim>\<open>matchAll\<close>, \<^verbatim>\<open>match\<close>): the next search starts where
  the last match ended, one further on after an empty match. The fuel is the number of
  start positions left.
\<close>

fun allMatchesFrom :: "nat \<Rightarrow> regex \<Rightarrow> flags \<Rightarrow> nat \<Rightarrow> string \<Rightarrow> rmatch list" where
  "allMatchesFrom 0 r fl i rest = []"
| "allMatchesFrom (Suc n) r fl i rest =
     (case execFrom r fl i rest of
        None \<Rightarrow> []
      | Some m \<Rightarrow>
          (let e = m_index m + length (m_text m);
               next = (if m_text m = [] then Suc e else e)
           in m # (if next - i \<le> length rest
                   then allMatchesFrom n r fl next (drop (next - i) rest) else [])))"

definition re_matchAll :: "regex \<Rightarrow> flags \<Rightarrow> string \<Rightarrow> rmatch list" where
  "re_matchAll r fl s = allMatchesFrom (Suc (length s)) r fl 0 s"

text \<open>
  \<^verbatim>\<open>str.split(re)\<close> for a pattern without capture groups. The matcher is tried at each
  index \<open>q\<close> in turn; a match that ends where the current piece starts is skipped, any
  other match closes the piece and the search goes on from its end. The fuel counts the
  steps: at most two for each character.
\<close>

fun splitFrom :: "nat \<Rightarrow> regex \<Rightarrow> flags \<Rightarrow> nat \<Rightarrow> string \<Rightarrow> string \<Rightarrow> string list" where
  "splitFrom 0 r fl q piece rest = [piece @ rest]"
| "splitFrom (Suc n) r fl q piece rest =
     (case rest of
        [] \<Rightarrow> [piece]
      | c # rest' \<Rightarrow>
          (case matchesAt r fl (q, rest, []) of
             (e, _, _) # _ \<Rightarrow>
               if e = q \<and> piece = [] then splitFrom n r fl (Suc q) (piece @ [c]) rest'
               else piece # splitFrom n r fl e [] (drop (e - q) rest)
           | [] \<Rightarrow> splitFrom n r fl (Suc q) (piece @ [c]) rest'))"

definition re_split :: "regex \<Rightarrow> flags \<Rightarrow> string \<Rightarrow> string list" where
  "re_split r fl s =
     (if s = [] then (if matchesAt r fl (0, [], []) = [] then [[]] else [])
      else splitFrom (Suc (2 * length s)) r fl 0 [] s)"

text \<open>\<^verbatim>\<open>str.replace(re, '')\<close>: the first match is cut out; with \<^verbatim>\<open>g\<close>, all of them.\<close>

definition re_remove_first :: "regex \<Rightarrow> flags \<Rightarrow> string \<Rightarrow> string" where
  "re_remove_first r fl s =
     (case re_match r fl s of
        None \<Rightarrow> s
      | Some m \<Rightarrow> take (m_index m) s @ drop (m_index m + length (m_text m)) s)"

fun cutAll :: "nat \<Rightarrow> rmatch list \<Rightarrow> string \<Rightarrow> string" where
  "cutAll i [] s = s"
| "cutAll i (m # ms) s =
     take (m_index m - i) s @ cutAll (m_index m + length (m_text m)) ms
       (drop (m_index m + length (m_text m) - i) s)"

definition re_remove_all :: "regex \<Rightarrow> flags \<Rightarrow> string \<Rightarrow> string" where
  "re_remove_all r fl s = cutAll 0 (re_matchAll r fl s) s"

subsection \<open>String methods\<close>

definition trim :: "string \<Rightarrow> string" where
  "trim s = rev (dropWhile isSpace (rev (dropWhile isSpace s)))"

text \<open>\<^verbatim>\<open>str.startsWith(p)\<close> and \<^verbatim>\<open>str.indexOf(p)\<close> (\<open>None\<close> for \<^verbatim>\<open>-1\<close>).\<close>

fun startsWith :: "string \<Rightarrow> string \<Rightarrow> bool" where
  "startsWith s [] = True"
| "startsWith [] (p # ps) = False"
| "startsWith (c # cs) (p # ps) = (c = p \<and> startsWith cs ps)"

fun indexOfFrom :: "nat \<Rightarrow> string \<Rightarrow> string \<Rightarrow> nat option" where
  "indexOfFrom i [] p = (if p = [] then Some i else None)"
| "indexOfFrom i (c # cs) p = (if startsWith (c # cs) p then Some i else indexOfFrom (Suc i) cs p)"

definition indexOf :: "string \<Rightarrow> string \<Rightarrow> nat option" where
  "indexOf s p = indexOfFrom 0 s p"

text \<open>\<^verbatim>\<open>str.split(sep)\<close> for a separator of one character or more, and \<^verbatim>\<open>arr.join(sep)\<close>.\<close>

fun splitOn :: "string \<Rightarrow> string \<Rightarrow> string \<Rightarrow> string list" where
  "splitOn sep piece [] = [piece]"
| "splitOn sep piece (c # cs) =
     (if sep \<noteq> [] \<and> startsWith (c # cs) sep
      then piece # splitOn sep [] (drop (length sep) (c # cs))
      else splitOn sep (piece @ [c]) cs)"

definition split :: "string \<Rightarrow> string \<Rightarrow> string list" where
  "split s sep = splitOn sep [] s"

fun join :: "string \<Rightarrow> string list \<Rightarrow> string" where
  "join sep [] = []"
| "join sep [x] = x"
| "join sep (x # xs) = x @ sep @ join sep xs"

text \<open>\<^verbatim>\<open>str.replace(pat, rep)\<close> with a string pattern: the first occurrence only.\<close>

definition replaceFirst :: "string \<Rightarrow> string \<Rightarrow> string \<Rightarrow> string" where
  "replaceFirst s pat rep =
     (case indexOf s pat of
        None \<Rightarrow> s
      | Some i \<Rightarrow> take i s @ rep @ drop (i + length pat) s)"

section \<open>The solution interpreter of the renderer\<close>

text \<open>
  The \<^verbatim>\<open>onSolutionSuccess\<close> handler of \<^verbatim>\<open>src/_pages/Solutions.tsx\<close>, from the solution text
  (\<^verbatim>\<open>data.solution || ""\<close>) to the \<^verbatim>\<open>solutionData\<close> object it stores.
\<close>

text \<open>\<^verbatim>\<open>/(```[\w\s]*\n)([\s\S]*?)(```)/g\<close>\<close>

definition codePattern :: regex where
  "codePattern =
     Seqs [Group 1 (Seqs [Lit ''```'', Star True (Cls False [CWord, CSpace]), Chr CHR 0x0A]),
           Group 2 (Star False (Cls False [CSpace, CNotSpace])),
           Group 3 (Lit ''```'')]"

text \<open>\<^verbatim>\<open>/[Tt]ime [Cc]omplexity:?\s*([^\.]*)/\<close> and its twin for space.\<close>

definition timeComplexityPattern :: regex where
  "timeComplexityPattern =
     Seqs [Cls False [CChar CHR ''T'', CChar CHR ''t''], Lit ''ime '',
           Cls False [CChar CHR ''C'', CChar CHR ''c''], Lit ''omplexity'',
           Opt (Chr CHR '':''), Star True (Cls False [CSpace]),
           Group 1 (Star True (Cls True [CChar CHR ''.'']))]"

definition spaceComplexityPattern :: regex where
  "spaceComplexityPattern =
     Seqs [Cls False [CChar CHR ''S'', CChar CHR ''s''], Lit ''pace '',
           Cls False [CChar CHR ''C'', CChar CHR ''c''], Lit ''omplexity'',
           Opt (Chr CHR '':''), Star True (Cls False [CSpace]),
           Group 1 (Star True (Cls True [CChar CHR ''.'']))]"

text \<open>\<^verbatim>\<open>/```[\w\s]*\n[\s\S]*?```/\<close> and \<^verbatim>\<open>/\n\s*\n/\<close>, the two patterns of \<^verbatim>\<open>split\<close>.\<close>

definition fencePattern :: regex where
  "fencePattern =
     Seqs [Lit ''```'', Star True (Cls False [CWord, CSpace]), Chr CHR 0x0A,
           Star False (Cls False [CSpace, CNotSpace]), Lit ''```'']"

definition blankLinePattern :: regex where
  "blankLinePattern = Seqs [Chr CHR 0x0A, Star True (Cls False [CSpace]), Chr CHR 0x0A]"

record solution_data =
  code :: string
  thoughts :: "string list"
  time_complexity :: string
  space_complexity :: string

text \<open>\<^verbatim>\<open>a || b\<close> on strings: the empty string is falsy.\<close>

definition orElse :: "string \<Rightarrow> string \<Rightarrow> string" where
  "orElse a b = (if a = [] then b else a)"

text \<open>
  \<^verbatim>\<open>codeMatches.reduce\<close> from the empty string: a block replaces the largest so far only
  when it is strictly longer. Group 2 takes part in every match of \<open>codePattern\<close>, so its
  text is always there.
\<close>

definition largestBlock :: "rmatch list \<Rightarrow> string" where
  "largestBlock codeMatches =
     foldl (\<lambda>largest m. case group m 2 of
                           None \<Rightarrow> largest
                         | Some body \<Rightarrow> if length body > length largest then body else largest)
       [] codeMatches"

definition complexityOf :: "regex \<Rightarrow> string \<Rightarrow> string" where
  "complexityOf pattern solutionText =
     (case re_match pattern noFlags solutionText of
        None \<Rightarrow> ''O(n)''
      | Some m \<Rightarrow> (case group m 1 of None \<Rightarrow> [] | Some t \<Rightarrow> trim t))"

definition onSolutionSuccess :: "string \<Rightarrow> string + solution_data" where
  "onSolutionSuccess solutionText =
     (let codeMatches = re_matchAll codePattern noFlags solutionText;
          code0 = (if length codeMatches > 0 then largestBlock codeMatches else []);
          timeComplexity = complexityOf timeComplexityPattern solutionText;
          spaceComplexity = complexityOf spaceComplexityPattern solutionText
      in case re_split fencePattern noFlags solutionText of
           [] \<Rightarrow> Inl ''TypeError: Cannot read properties of undefined''
         | beforeCode # _ \<Rightarrow>
             Inr \<lparr>code = orElse code0 solutionText,
                  thoughts = map trim (filter (\<lambda>t. length (trim t) > 10)
                                         (re_split blankLinePattern noFlags beforeCode)),
                  time_complexity = orElse timeComplexity ''O(n)'',
                  space_complexity = orElse spaceComplexity ''O(n)''\<rparr>)"

text \<open>
  What the claim calls a fenced code block: an opening fence with an optional language
  tag on its own line, the lines of code, and the closing fence.
\<close>

definition fenced :: "string \<Rightarrow> string \<Rightarrow> string" where
  "fenced lang body = ''```'' @ lang @ [CHR 0x0A] @ body @ ''```''"

text \<open>
  A response as the prompt asks for it: prose, one fenced block, labelled complexities.
  The block is the code, the paragraph of more than ten characters is the one thought
  (the two-character paragraph is dropped), the labelled complexities are read, and
  without labels both default to \<^verbatim>\<open>O(n)\<close>.
\<close>

lemma onSolutionSuccess_typical:
  "onSolutionSuccess (''Use a hash map to count.\<newline>\<newline>ok\<newline>\<newline>''
       @ fenced ''python'' ''def f(x):\<newline>  return x\<newline>''
       @ ''\<newline>Time complexity: O(n^2). Space complexity: O(1).'')
   = Inr \<lparr>code = ''def f(x):\<newline>  return x\<newline>'',
          thoughts = [''Use a hash map to count.''],
          time_complexity = ''O(n^2)'', space_complexity = ''O(1)''\<rparr>"
  by code_simp

lemma onSolutionSuccess_defaults:
  "onSolutionSuccess (fenced ''js'' ''f(x);\<newline>'')
   = Inr \<lparr>code = ''f(x);\<newline>'', thoughts = [],
          time_complexity = ''O(n)'', space_complexity = ''O(n)''\<rparr>"
  by code_simp

lemma complexity_default:
  "re_match pattern noFlags solutionText = None \<Longrightarrow> complexityOf pattern solutionText = ''O(n)''"
  by (simp add: complexityOf_def)

text \<open>
  Claim C8 fails on the code for a fenced block whose first lines hold only letters,
  digits, underscores and white space. In \<^verbatim>\<open>(```[\w\s]*\n)\<close> the class \<^verbatim>\<open>\s\<close> matches line
  feeds, so the greedy \<^verbatim>\<open>[\w\s]*\<close> runs on through such lines and the opening group ends at
  the last line feed it reached. For the block \<^verbatim>\<open>return 0\<close> the code group is empty and
  \<^verbatim>\<open>code || solutionText\<close> yields the whole response, fences included; for a block that
  starts with \<^verbatim>\<open>import os\<close> that line is missing from the code.
\<close>

theorem onSolutionSuccess_swallows_plain_lines:
  "onSolutionSuccess (fenced ''python'' ''return 0\<newline>'')
   = Inr \<lparr>code = fenced ''python'' ''return 0\<newline>'', thoughts = [],
          time_complexity = ''O(n)'', space_complexity = ''O(n)''\<rparr> \<and>
   onSolutionSuccess (fenced ''python'' ''import os\<newline>print(os.name)\<newline>'')
   = Inr \<lparr>code = ''print(os.name)\<newline>'', thoughts = [],
          time_complexity = ''O(n)'', space_complexity = ''O(n)''\<rparr>"
  by code_simp

section \<open>The response interpreter of \<^verbatim>\<open>ProcessingHelper\<close>\<close>

text \<open>Truthiness of a value, for \<^verbatim>\<open>if (!problemInfo)\<close> and \<^verbatim>\<open>||\<close>.\<close>

fun truthy :: "jsval \<Rightarrow> bool" where
  "truthy JNull = False"
| "truthy (JBool b) = b"
| "truthy (JNum n) = (n \<noteq> 0)"
| "truthy (JStr s) = (s \<noteq> [])"
| "truthy (JArr xs) = True"
| "truthy (JObj kvs) = True"

text \<open>Reading a property: \<open>None\<close> is \<^verbatim>\<open>undefined\<close>.\<close>

fun getProp :: "jsval \<Rightarrow> string \<Rightarrow> jsval option" where
  "getProp (JObj kvs) k = map_of kvs k"
| "getProp v k = None"

text \<open>
  \<^verbatim>\<open>extractJSONFromResponse\<close>: \<^verbatim>\<open>/\{[\s\S]*\}/\<close>, then \<^verbatim>\<open>JSON.parse\<close> inside \<^verbatim>\<open>try\<close>. The parser
  is the runtime's; \<open>parse t = None\<close> when \<^verbatim>\<open>JSON.parse(t)\<close> throws. \<open>None\<close> is \<^verbatim>\<open>null\<close>.
\<close>

definition jsonPattern :: regex where
  "jsonPattern = Seqs [Chr CHR ''{'', Star True (Cls False [CSpace, CNotSpace]), Chr CHR ''}'']"

definition extractJSONFromResponse :: "(string \<Rightarrow> jsval option) \<Rightarrow> string \<Rightarrow> jsval option" where
  "extractJSONFromResponse parse text =
     (case re_match jsonPattern noFlags text of
        Some jsonMatch \<Rightarrow> parse (m_text jsonMatch)
      | None \<Rightarrow> None)"

text \<open>\<^verbatim>\<open>extractTitle\<close>: \<^verbatim>\<open>/(?:Title:|Problem:|Question:|Exercise:)\s*([^\n]+)/i\<close>, then the first
  three lines.\<close>

definition titleRegex :: regex where
  "titleRegex =
     Seqs [Alts [Lit ''Title:'', Lit ''Problem:'', Lit ''Question:'', Lit ''Exercise:''],
           Star True (Cls False [CSpace]),
           Group 1 (Plus True (Cls True [CChar CHR 0x0A]))]"

fun firstHeaderLine :: "string list \<Rightarrow> string option" where
  "firstHeaderLine [] = None"
| "firstHeaderLine (l # ls) =
     (let line = trim l
      in if line \<noteq> [] \<and> length line < 100 \<and> length line > 10 then Some line
         else firstHeaderLine ls)"

definition extractTitle :: "string \<Rightarrow> string option" where
  "extractTitle text =
     (case (case re_match titleRegex flag_i text of
              None \<Rightarrow> None
            | Some m \<Rightarrow> (case group m 1 of
                           None \<Rightarrow> None
                         | Some t \<Rightarrow> if t \<noteq> [] then Some (trim t) else None)) of
        Some title \<Rightarrow> Some title
      | None \<Rightarrow> firstHeaderLine (take 3 (split text [CHR 0x0A])))"

text \<open>
  \<^verbatim>\<open>extractDescription\<close>:
  \<^verbatim>\<open>/(?:Description:|Problem Statement:|Instructions:)\s*([^]*?)(?=Examples:|Input:|Output:|Constraints:|Code:|Function|$)/is\<close>,
  then the text before the first code fence or \<^verbatim>\<open>/Examples:|Example \d+:|Input:|Output:/i\<close>.
\<close>

definition descRegex :: regex where
  "descRegex =
     Seqs [Alts [Lit ''Description:'', Lit ''Problem Statement:'', Lit ''Instructions:''],
           Star True (Cls False [CSpace]),
           Group 1 (Star False (Cls True [])),
           Look (Alts [Lit ''Examples:'', Lit ''Input:'', Lit ''Output:'', Lit ''Constraints:'',
                       Lit ''Code:'', Lit ''Function'', Eol])]"

definition examplesMarker :: regex where
  "examplesMarker =
     Alts [Lit ''Examples:'',
           Seqs [Lit ''Example '', Plus True (Cls False [CDigit]), Chr CHR '':''],
           Lit ''Input:'', Lit ''Output:'']"

definition extractDescription :: "string \<Rightarrow> string" where
  "extractDescription text =
     (case (case re_match descRegex flag_is text of
              None \<Rightarrow> None
            | Some m \<Rightarrow> (case group m 1 of
                           None \<Rightarrow> None
                         | Some d \<Rightarrow> if d \<noteq> [] then Some (trim d) else None)) of
        Some description \<Rightarrow> description
      | None \<Rightarrow>
          (let codeIndex = (case indexOf text ''```'' of None \<Rightarrow> -1 | Some i \<Rightarrow> int i);
               examplesIndex = re_search examplesMarker flag_i text;
               endIndex0 = int (length text);
               endIndex1 = (if codeIndex > 0 then min endIndex0 codeIndex else endIndex0);
               endIndex2 = (if examplesIndex > 0 then min endIndex1 examplesIndex else endIndex1)
           in trim (take (nat endIndex2) text)))"

text \<open>
  \<^verbatim>\<open>extractCodeBlocks\<close>: \<^verbatim>\<open>/```(?:[\w\-+.]+)?\s*([^]*?)```/gs\<close>; without a fenced block, runs of
  lines that are indented or contain one of \<^verbatim>\<open>{};=[]<>\<close>.
\<close>

definition codeBlockRegex :: regex where
  "codeBlockRegex =
     Seqs [Lit ''```'',
           Opt (Plus True (Cls False [CWord, CChar CHR ''-'', CChar CHR ''+'', CChar CHR ''.''])),
           Star True (Cls False [CSpace]),
           Group 1 (Star False (Cls True [])),
           Lit ''```'']"

definition codishRegex :: regex where
  "codishRegex =
     Cls False [CChar CHR ''{'', CChar CHR ''}'', CChar CHR '';'', CChar CHR ''='',
                CChar CHR ''['', CChar CHR '']'', CChar CHR ''<'', CChar CHR ''>'']"

text \<open>The loop over the lines: \<open>(inCodeBlock, codeBlocks, currentBlock)\<close>.\<close>

definition codeLine :: "bool \<times> string list \<times> string list \<Rightarrow> string \<Rightarrow> bool \<times> string list \<times> string list" where
  "codeLine st line =
     (case st of (inCodeBlock, codeBlocks, currentBlock) \<Rightarrow>
        (let isIndented = (startsWith line ''    '' \<or> startsWith line [CHR 0x09]);
             looksCodish = re_test codishRegex noFlags line
         in if isIndented \<or> looksCodish then (True, codeBlocks, currentBlock @ [line])
            else if inCodeBlock \<and> trim line = [] then (inCodeBlock, codeBlocks, currentBlock @ [line])
            else if inCodeBlock then
              (False,
               if length currentBlock > 1 then codeBlocks @ [join [CHR 0x0A] currentBlock]
               else codeBlocks,
               [])
            else st))"

definition extractCodeBlocks :: "string \<Rightarrow> string" where
  "extractCodeBlocks text =
     (let matches = re_matchAll codeBlockRegex flag_s text
      in if length matches > 0
         then join [CHR 0x0A, CHR 0x0A]
                (map (\<lambda>m. case group m 1 of None \<Rightarrow> [] | Some b \<Rightarrow> trim b) matches)
         else
           (case foldl codeLine (False, [], []) (split text [CHR 0x0A]) of
              (inCodeBlock, codeBlocks, currentBlock) \<Rightarrow>
                join [CHR 0x0A, CHR 0x0A]
                  (if inCodeBlock \<and> length currentBlock > 1
                   then codeBlocks @ [join [CHR 0x0A] currentBlock] else codeBlocks)))"

text \<open>
  \<^verbatim>\<open>extractExamples\<close>: \<^verbatim>\<open>/examples.*?:.*?\[(.*?)\]/is\<close> parsed as a JSON array, else every match of
  \<^verbatim>\<open>/example\s*\d*\s*:?\s*\n?input\s*:([^]*?)output\s*:([^]*?)(?:explanation\s*:([^]*?))?(?=example|\n\n|$)/gi\<close>,
  else one placeholder.
\<close>

definition examplesArrayRegex :: regex where
  "examplesArrayRegex =
     Seqs [Lit ''examples'', Star False Dot, Chr CHR '':'', Star False Dot, Chr CHR ''['',
           Group 1 (Star False Dot), Chr CHR '']'']"

definition exampleRegex :: regex where
  "exampleRegex =
     Seqs [Lit ''example'', Star True (Cls False [CSpace]), Star True (Cls False [CDigit]),
           Star True (Cls False [CSpace]), Opt (Chr CHR '':''), Star True (Cls False [CSpace]),
           Opt (Chr CHR 0x0A),
           Lit ''input'', Star True (Cls False [CSpace]), Chr CHR '':'',
           Group 1 (Star False (Cls True [])),
           Lit ''output'', Star True (Cls False [CSpace]), Chr CHR '':'',
           Group 2 (Star False (Cls True [])),
           Opt (Seqs [Lit ''explanation'', Star True (Cls False [CSpace]), Chr CHR '':'',
                      Group 3 (Star False (Cls True []))]),
           Look (Alts [Lit ''example'', Lit [CHR 0x0A, CHR 0x0A], Eol])]"

definition trimmedGroup :: "rmatch \<Rightarrow> nat \<Rightarrow> string" where
  "trimmedGroup m n = (case group m n of None \<Rightarrow> [] | Some t \<Rightarrow> trim t)"

definition extractExamples :: "(string \<Rightarrow> jsval option) \<Rightarrow> string \<Rightarrow> jsval" where
  "extractExamples parse text =
     (case (case re_match examplesArrayRegex flag_is text of
              None \<Rightarrow> None
            | Some m \<Rightarrow> (case group m 1 of
                           None \<Rightarrow> None
                         | Some inner \<Rightarrow> if inner \<noteq> [] then parse (''['' @ inner @ '']'') else None)) of
        Some examplesJson \<Rightarrow> examplesJson
      | None \<Rightarrow>
          (let examples =
                 map (\<lambda>m. JObj [(''input'', JStr (trimmedGroup m 1)),
                                 (''output'', JStr (trimmedGroup m 2)),
                                 (''explanation'', JStr (trimmedGroup m 3))])
                   (re_matchAll exampleRegex flag_i text)
           in if length examples > 0 then JArr examples
              else JArr [JObj [(''input'', JStr ''Example input''),
                               (''output'', JStr ''Example output'')]]))"

text \<open>
  \<^verbatim>\<open>extractList\<close>, for a field name without regular expression operators (the one call
  passes \<^verbatim>\<open>"constraints"\<close>): \<^verbatim>\<open>"?name"?\s*:\s*\[(.*?)\]\<close> with flags \<^verbatim>\<open>is\<close>, parsed as an array
  or split at commas; else, when
  \<^verbatim>\<open>name[^]*?(?:(?:\d+[\.\)\-]|[\.\*\-])\s*([^\n]+))+\<close> matches, every match of
  \<^verbatim>\<open>/(?:\d+[\.\)\-]|[\.\*\-])\s*([^\n]+)/g\<close> in the whole text, each stripped with
  \<^verbatim>\<open>/^\d+[\.\)\-]|[\.\*\-]\s*/\<close>.
\<close>

definition quoteClass :: regex where
  "quoteClass = Cls False [CChar CHR 0x22, CChar CHR 0x27]"

definition bulletRegex :: regex where
  "bulletRegex =
     Alt (Seq (Plus True (Cls False [CDigit]))
              (Cls False [CChar CHR ''.'', CChar CHR '')'', CChar CHR ''-'']))
         (Cls False [CChar CHR ''.'', CChar CHR ''*'', CChar CHR ''-''])"

definition listItemRegex :: regex where
  "listItemRegex =
     Seqs [bulletRegex, Star True (Cls False [CSpace]), Group 1 (Plus True (Cls True [CChar CHR 0x0A]))]"

definition extractList :: "(string \<Rightarrow> jsval option) \<Rightarrow> string \<Rightarrow> string \<Rightarrow> jsval" where
  "extractList parse text fieldName =
     (case (case re_match (Seqs [Opt (Chr CHR 0x22), Lit fieldName, Opt (Chr CHR 0x22),
                                 Star True (Cls False [CSpace]), Chr CHR '':'',
                                 Star True (Cls False [CSpace]), Chr CHR ''['',
                                 Group 1 (Star False Dot), Chr CHR '']'']) flag_is text of
              None \<Rightarrow> None
            | Some m \<Rightarrow> (case group m 1 of
                           None \<Rightarrow> None
                         | Some inner \<Rightarrow> if inner \<noteq> [] then Some inner else None)) of
        Some inner \<Rightarrow>
          (case parse (''['' @ inner @ '']'') of
             Some list \<Rightarrow> list
           | None \<Rightarrow>
               JArr (map (\<lambda>item. JStr (re_remove_all (Alt (Seq Bol quoteClass) (Seq quoteClass Eol))
                                          noFlags (trim item)))
                       (split inner '','')))
      | None \<Rightarrow>
          (if re_test (Seqs [Lit fieldName, Star False (Cls True []), Plus True listItemRegex])
                flag_i text
           then (case re_matchAll listItemRegex noFlags text of
                   [] \<Rightarrow> JArr []
                 | listItems \<Rightarrow>
                     JArr (map (\<lambda>m. JStr (trim (re_remove_first
                                  (Alt (Seqs [Bol, Plus True (Cls False [CDigit]),
                                              Cls False [CChar CHR ''.'', CChar CHR '')'', CChar CHR ''-'']])
                                       (Seq (Cls False [CChar CHR ''.'', CChar CHR ''*'', CChar CHR ''-''])
                                            (Star True (Cls False [CSpace]))))
                                  noFlags (m_text m)))) listItems))
           else JArr []))"

text \<open>\<^verbatim>\<open>extractField\<close>: \<^verbatim>\<open>"?name"?\s*:\s*"?(.*?)"?[,}]\<close> with flag \<^verbatim>\<open>i\<close>; \<open>None\<close> is \<^verbatim>\<open>null\<close>.\<close>

definition extractField :: "string \<Rightarrow> string \<Rightarrow> string option" where
  "extractField text fieldName =
     (case re_match (Seqs [Opt (Chr CHR 0x22), Lit fieldName, Opt (Chr CHR 0x22),
                           Star True (Cls False [CSpace]), Chr CHR '':'',
                           Star True (Cls False [CSpace]), Opt (Chr CHR 0x22),
                           Group 1 (Star False Dot), Opt (Chr CHR 0x22),
                           Cls False [CChar CHR '','', CChar CHR ''}'']]) flag_i text of
        None \<Rightarrow> None
      | Some m \<Rightarrow> Some (trimmedGroup m 1))"

text \<open>
  The object built from raw text when no JSON was found, and the one built in the
  \<^verbatim>\<open>catch\<close> block of the interpretation: the first 1000 characters as description.
\<close>

definition rawProblemInfo :: "(string \<Rightarrow> jsval option) \<Rightarrow> string \<Rightarrow> jsval" where
  "rawProblemInfo parse responseText =
     JObj [(''title'', JStr (case extractTitle responseText of
                               None \<Rightarrow> ''Code Analysis''
                             | Some t \<Rightarrow> orElse t ''Code Analysis'')),
           (''description'', JStr (orElse (extractDescription responseText) responseText)),
           (''code'', JStr (orElse (extractCodeBlocks responseText) [])),
           (''examples'', extractExamples parse responseText),
           (''constraints'', extractList parse responseText ''constraints''),
           (''function_signature'',
              JStr (case extractField responseText ''function_signature'' of
                      None \<Rightarrow> [] | Some f \<Rightarrow> orElse f [])),
           (''original_problem'', JStr responseText)]"

definition fallbackProblemInfo :: "string \<Rightarrow> jsval" where
  "fallbackProblemInfo responseText =
     JObj [(''title'', JStr ''Code Analysis''),
           (''description'', JStr (take 1000 responseText)),
           (''code'', JStr []),
           (''examples'', JArr []),
           (''constraints'', JArr []),
           (''function_signature'', JStr []),
           (''original_problem'', JStr responseText)]"

text \<open>
  The interpretation step of \<^verbatim>\<open>processScreenshots\<close>. \<open>thrown\<close> is the exception, if any,
  that the runtime raises while the \<^verbatim>\<open>try\<close> block computes the object; the \<^verbatim>\<open>catch\<close> block
  answers it with the fallback object.
\<close>

definition interpretTry :: "(string \<Rightarrow> jsval option) \<Rightarrow> string option \<Rightarrow> string \<Rightarrow> string + jsval" where
  "interpretTry parse thrown responseText =
     (case thrown of
        Some e \<Rightarrow> Inl e
      | None \<Rightarrow>
          (case extractJSONFromResponse parse responseText of
             None \<Rightarrow> Inr (rawProblemInfo parse responseText)
           | Some parsed \<Rightarrow>
               if truthy parsed then Inr parsed
               else Inr (rawProblemInfo parse responseText)))"

definition interpretResponse :: "(string \<Rightarrow> jsval option) \<Rightarrow> string option \<Rightarrow> string \<Rightarrow> jsval" where
  "interpretResponse parse thrown responseText =
     (case interpretTry parse thrown responseText of
        Inr info \<Rightarrow> info
      | Inl e \<Rightarrow> fallbackProblemInfo responseText)"

subsection \<open>Properties of the interpretation step\<close>

lemma extractDescription_empty: "extractDescription [] = []"
  by code_simp

lemma description_empty_iff:
  "orElse (extractDescription responseText) responseText = [] \<longleftrightarrow> responseText = []"
  by (auto simp: orElse_def extractDescription_empty)

text \<open>
  Claim C7. As stated the claim fails: the empty response has no JSON object and no code
  fence, and its description is the empty string. And a response that holds a JSON
  object is interpreted as that object, whatever its keys: with \<^verbatim>\<open>JSON.parse("{}")\<close> giving
  the empty object there is no description at all.
\<close>

theorem interpret_empty_description_counterexample:
  "getProp (interpretResponse (\<lambda>t. None) None []) ''description'' = Some (JStr []) \<and>
   getProp (interpretResponse (\<lambda>t. if t = ''{}'' then Some (JObj []) else None) None ''{}'')
     ''description'' = None"
  by code_simp

text \<open>
  Claim C7, amended. For every raw response, every behaviour of \<^verbatim>\<open>JSON.parse\<close> and whether
  or not the structured attempt throws, the interpretation step returns a value that is
  not null. When nothing throws and no JSON object is found, the value is the object
  built from the raw text and its description is empty only for the empty response.
  When a JSON object is found it is returned as it is. When the attempt throws, the
  value is the last resort: the first 1000 characters of the response as description,
  the title \<^verbatim>\<open>Code Analysis\<close>, and empty code, examples, constraints and signature.
\<close>

theorem interpret_best_effort:
  "truthy (interpretResponse parse thrown responseText) \<and>
   (thrown = None \<and> extractJSONFromResponse parse responseText = None \<longrightarrow>
      interpretResponse parse thrown responseText = rawProblemInfo parse responseText \<and>
      getProp (interpretResponse parse thrown responseText) ''description''
        = Some (JStr (orElse (extractDescription responseText) responseText)) \<and>
      (orElse (extractDescription responseText) responseText = [] \<longleftrightarrow> responseText = [])) \<and>
   (\<forall>parsed. thrown = None \<and> extractJSONFromResponse parse responseText = Some parsed \<and> truthy parsed \<longrightarrow>
      interpretResponse parse thrown responseText = parsed) \<and>
   (thrown \<noteq> None \<longrightarrow>
      interpretResponse parse thrown responseText =
        JObj [(''title'', JStr ''Code Analysis''),
              (''description'', JStr (take 1000 responseText)),
              (''code'', JStr []),
              (''examples'', JArr []),
              (''constraints'', JArr []),
              (''function_signature'', JStr []),
              (''original_problem'', JStr responseText)])"
proof -
  have t: "truthy (interpretResponse parse thrown responseText)"
    by (auto simp: interpretResponse_def interpretTry_def rawProblemInfo_def
        fallbackProblemInfo_def split: option.splits sum.splits)
  have raw: "interpretResponse parse thrown responseText = rawProblemInfo parse responseText"
    if "thrown = None" "extractJSONFromResponse parse responseText = None"
    using that by (simp add: interpretResponse_def interpretTry_def)
  have d: "getProp (rawProblemInfo parse responseText) ''description''
      = Some (JStr (orElse (extractDescription responseText) responseText))"
    by (simp add: rawProblemInfo_def)
  have j: "interpretResponse parse thrown responseText = parsed"
    if "thrown = None" "extractJSONFromResponse parse responseText = Some parsed" "truthy parsed"
    for parsed
    using that by (simp add: interpretResponse_def interpretTry_def)
  have f: "interpretResponse parse thrown responseText = fallbackProblemInfo responseText" if "thrown \<noteq> None"
    using that by (auto simp: interpretResponse_def interpretTry_def)
  show ?thesis
    using t raw d j f description_empty_iff [of responseText]
    by (auto simp: fallbackProblemInfo_def)
qed

theorem interpret_best_effort_witness:
  "extractJSONFromResponse (\<lambda>t. None) ''func foo(n): return n*2'' = None \<and>
   getProp (interpretResponse (\<lambda>t. None) None ''func foo(n): return n*2'') ''description''
     = Some (JStr ''func foo(n): return n*2'') \<and>
   extractJSONFromResponse (\<lambda>t. if t = ''{}'' then Some (JObj []) else None) ''{}'' = Some (JObj []) \<and>
   interpretResponse (\<lambda>t. if t = ''{}'' then Some (JObj []) else None) None ''{}'' = JObj [] \<and>
   getProp (interpretResponse (\<lambda>t. None) (Some ''RangeError'') ''abc'') ''description''
     = Some (JStr ''abc'')"
proof -
  have a: "extractJSONFromResponse (\<lambda>t. None) ''func foo(n): return n*2'' = None"
    by code_simp
  have b: "orElse (extractDescription ''func foo(n): return n*2'') ''func foo(n): return n*2''
      = ''func foo(n): return n*2''"
    by code_simp
  have c: "extractJSONFromResponse (\<lambda>t. if t = ''{}'' then Some (JObj []) else None) ''{}''
      = Some (JObj [])"
    by code_simp
  have "getProp (interpretResponse (\<lambda>t. None) None ''func foo(n): return n*2'') ''description''
      = Some (JStr (orElse (extractDescription ''func foo(n): return n*2'') ''func foo(n): return n*2''))"
    using interpret_best_effort [of "\<lambda>t. None" None "''func foo(n): return n*2''"] a by blast
  then have d: "getProp (interpretResponse (\<lambda>t. None) None ''func foo(n): return n*2'') ''description''
      = Some (JStr ''func foo(n): return n*2'')"
    using b by simp
  have e: "interpretResponse (\<lambda>t. if t = ''{}'' then Some (JObj []) else None) None ''{}'' = JObj []"
    using interpret_best_effort [of "\<lambda>t. if t = ''{}'' then Some (JObj []) else None" None "''{}''"] c
    by simp
  have f: "getProp (interpretResponse (\<lambda>t. None) (Some ''RangeError'') ''abc'') ''description''
      = Some (JStr ''abc'')"
    using interpret_best_effort [of "\<lambda>t. None" "Some ''RangeError''" "''abc''"] by simp
  show ?thesis
    using a c d e f by blast
qed

section \<open>\<^verbatim>\<open>ProcessingHelper\<close>: the two pipelines\<close>

text \<open>
  What the pipelines ask of the outside: the renderer's initialisation flag as successive
  polls see it, the text recogniser, the model behind \<^verbatim>\<open>axios.post\<close> (the error message or
  \<^verbatim>\<open>response.data.response\<close>), the JSON parser, and the runtime faults of the interpretation.
\<close>

datatype payload =
    AnalysisRequest string    \<comment> \<open>\<^verbatim>\<open>prompt: combinedText\<close>, temperature 0.1, timeout 90 s\<close>
  | SolutionRequest jsval     \<comment> \<open>\<^verbatim>\<open>prompt: JSON.stringify(minimalContext)\<close>, timeout 180 s\<close>
  | ImageRequest string       \<comment> \<open>\<^verbatim>\<open>images: [imageData]\<close>, temperature 0.1, timeout 90 s\<close>

record proc_env =
  os :: os_env
  isInitialized :: "nat \<Rightarrow> bool"
  recognize :: "string \<Rightarrow> string + string"
  generate :: "payload \<Rightarrow> string + string"
  json_parse :: "string \<Rightarrow> jsval option"
  thrown :: "string \<Rightarrow> string option"

text \<open>
  \<^verbatim>\<open>axios.post\<close> with \<^verbatim>\<open>{ signal }\<close>: once the signal is aborted the promise rejects with the
  message \<^verbatim>\<open>canceled\<close>, whether the abort came before the call or while it was in flight.
\<close>

definition post :: "proc_env \<Rightarrow> bool \<Rightarrow> payload \<Rightarrow> string + string" where
  "post env signalAborted request = (if signalAborted then Inl ''canceled'' else generate env request)"

definition signalAborted :: "nat \<Rightarrow> app_state \<Rightarrow> bool" where
  "signalAborted signal s = (signal \<in> set (abortedControllers s))"

definition abort :: "nat \<Rightarrow> app_state \<Rightarrow> app_state" where
  "abort controller s = s\<lparr>abortedControllers := controller # abortedControllers s\<rparr>"

text \<open>\<^verbatim>\<open>new AbortController()\<close>: the next number, not aborted.\<close>

definition newAbortController :: "app_state \<Rightarrow> nat \<times> app_state" where
  "newAbortController s = (controllersCreated s, s\<lparr>controllersCreated := Suc (controllersCreated s)\<rparr>)"

text \<open>
  \<^verbatim>\<open>cancelOngoingRequests\<close>: aborts and forgets both controllers, resets \<^verbatim>\<open>hasDebugged\<close>, and
  clears the problem info (\<^verbatim>\<open>this.deps.setProblemInfo(null)\<close>).
\<close>

definition cancelOngoingRequests :: "app_state \<Rightarrow> app_state" where
  "cancelOngoingRequests s =
     (let s1 = (case currentProcessingAbortController s of
                  None \<Rightarrow> s
                | Some c \<Rightarrow> (abort c s)\<lparr>currentProcessingAbortController := None\<rparr>);
          s2 = (case currentExtraProcessingAbortController s1 of
                  None \<Rightarrow> s1
                | Some c \<Rightarrow> (abort c s1)\<lparr>currentExtraProcessingAbortController := None\<rparr>);
          wasCancelled = (currentProcessingAbortController s \<noteq> None \<or>
                          currentExtraProcessingAbortController s \<noteq> None);
          s3 = s2\<lparr>hasDebugged := False, problemInfo := None\<rparr>
      in if wasCancelled \<and> mainWindow s3 = LiveWindow
         then webContents_send NO_SCREENSHOTS JNull s3 else s3)"

text \<open>\<^verbatim>\<open>waitForInitialization\<close>: at most 50 polls; \<open>True\<close> when one of them sees the flag.\<close>

fun waitLoop :: "(nat \<Rightarrow> bool) \<Rightarrow> nat \<Rightarrow> nat \<Rightarrow> bool" where
  "waitLoop poll 0 attempts = False"
| "waitLoop poll (Suc left) attempts = (poll attempts \<or> waitLoop poll left (Suc attempts))"

definition waitForInitialization :: "proc_env \<Rightarrow> string option" where
  "waitForInitialization env =
     (if waitLoop (isInitialized env) 50 0 then None
      else Some ''App failed to initialize after 5 seconds'')"

text \<open>
  Object spread with one more key, \<^verbatim>\<open>{ ...obj, extraInfo: v }\<close>: the keys of \<open>obj\<close> in their
  order, the new key replacing an old one of the same name or coming last. A value that
  is not an object contributes its own enumerable keys: the indices of a string (one
  character each) or of an array, and nothing for \<^verbatim>\<open>null\<close>, a number or a boolean.
\<close>

fun indexKey :: "nat \<Rightarrow> string" where
  "indexKey n =
     (if n < 10 then [''0123456789'' ! n]
      else indexKey (n div 10) @ [''0123456789'' ! (n mod 10)])"

definition ownKeys :: "jsval \<Rightarrow> (string \<times> jsval) list" where
  "ownKeys v =
     (case v of
        JObj kvs \<Rightarrow> kvs
      | JStr str \<Rightarrow> zip (map indexKey [0..<length str]) (map (\<lambda>c. JStr [c]) str)
      | JArr xs \<Rightarrow> zip (map indexKey [0..<length xs]) xs
      | _ \<Rightarrow> [])"

fun assign :: "(string \<times> jsval) list \<Rightarrow> string \<Rightarrow> jsval \<Rightarrow> (string \<times> jsval) list" where
  "assign [] k v = [(k, v)]"
| "assign ((k', v') # kvs) k v = (if k' = k then (k, v) # kvs else (k', v') # assign kvs k v)"

definition spreadWith :: "jsval \<Rightarrow> string \<Rightarrow> jsval \<Rightarrow> jsval" where
  "spreadWith obj k v = JObj (assign (ownKeys obj) k v)"

lemma spreadWith_JObj [simp]: "spreadWith (JObj kvs) k v = JObj (assign kvs k v)"
  by (simp add: spreadWith_def ownKeys_def)

text \<open>
  The loop of \<^verbatim>\<open>processExtraScreenshotsHelper\<close> over the captures: normalise, read the
  normalised file, ask the model. \<open>Inl\<close> is the exception that ends the loop. The files
  change as normalisation writes.
\<close>

definition enoent :: "string \<Rightarrow> string \<Rightarrow> string" where
  "enoent syscall path =
     ''ENOENT: no such file or directory, '' @ syscall @ '' '' @ [CHR 0x27] @ path @ [CHR 0x27]"

fun analyseExtra ::
  "proc_env \<Rightarrow> bool \<Rightarrow> (string \<times> string) list \<Rightarrow> string list \<Rightarrow> fs \<Rightarrow> (string + string list) \<times> fs" where
  "analyseExtra env aborted [] results fs0 = (Inr results, fs0)"
| "analyseExtra env aborted ((path, dat) # rest) results fs0 =
     (case normalizeImage (os env) path fs0 of
        (normalizedPath, fs1) \<Rightarrow>
          (case fs1 normalizedPath of
             None \<Rightarrow> (Inl (enoent ''open'' normalizedPath), fs1)
           | Some imageData \<Rightarrow>
               (case post env aborted (ImageRequest imageData) of
                  Inl e \<Rightarrow> (Inl e, fs1)
                | Inr analysisResult \<Rightarrow>
                    analyseExtra env aborted rest (results @ [analysisResult]) fs1)))"

definition processExtraScreenshotsHelper ::
  "proc_env \<Rightarrow> (string \<times> string) list \<Rightarrow> nat \<Rightarrow> app_state \<Rightarrow> app_state" where
  "processExtraScreenshotsHelper env screenshots signal s =
     (if signalAborted signal s then s
      else if mainWindow s = NoWindow then s
      else
        (case (case problemInfo s of
                 None \<Rightarrow> None
               | Some info \<Rightarrow> if truthy info then Some info else None) of
           None \<Rightarrow>
             webContents_send DEBUG_ERROR (JStr ''No problem information available to enhance.'') s
         | Some currentProblemInfo \<Rightarrow>
             (case analyseExtra env (signalAborted signal s) screenshots [] (files s) of
                (Inr extraInfoResults, fs1) \<Rightarrow>
                  (let combinedExtraInfo = join [CHR 0x0A, CHR 0x0A] extraInfoResults;
                       updatedProblemInfo =
                         spreadWith currentProblemInfo ''extraInfo'' (JStr combinedExtraInfo);
                       s1 = s\<lparr>files := fs1, problemInfo := Some updatedProblemInfo\<rparr>
                   in webContents_send DEBUG_SUCCESS updatedProblemInfo s1)
              | (Inl e, fs1) \<Rightarrow>
                  (let s1 = s\<lparr>files := fs1\<rparr>
                   in if signalAborted signal s1 then s1
                      else webContents_send DEBUG_ERROR
                             (JStr (orElse e ''Error processing extra screenshots'')) s1))))"

text \<open>
  \<^verbatim>\<open>processExtraScreenshots\<close>, run without interruption. Its first statement is
  \<^verbatim>\<open>this.cancelOngoingRequests()\<close>. A capture whose file cannot be read or is empty is left
  out (\<^verbatim>\<open>data: ""\<close>, then \<^verbatim>\<open>filter((s) => s.data)\<close>). The \<^verbatim>\<open>finally\<close> block forgets the
  controller on every path through the \<^verbatim>\<open>try\<close>.
\<close>

definition readScreenshots :: "fs \<Rightarrow> string list \<Rightarrow> (string \<times> string) list" where
  "readScreenshots fs0 paths =
     filter (\<lambda>sd. snd sd \<noteq> [])
       (map (\<lambda>screenshotPath. (screenshotPath,
                                case fs0 screenshotPath of None \<Rightarrow> [] | Some content \<Rightarrow> content))
          paths)"

definition processExtraScreenshots :: "proc_env \<Rightarrow> app_state \<Rightarrow> app_state" where
  "processExtraScreenshots env s =
     (let s1 = cancelOngoingRequests s
      in if mainWindow s1 = NoWindow then s1
         else
           (case waitForInitialization env of
              Some e \<Rightarrow>
                (webContents_send DEBUG_ERROR
                   (JStr (orElse e ''Unknown error processing extra screenshots'')) s1)
                  \<lparr>currentExtraProcessingAbortController := None\<rparr>
            | None \<Rightarrow>
                (let extraScreenshots = getExtraScreenshotQueue s1
                 in if extraScreenshots = [] then
                      (webContents_send DEBUG_ERROR
                         (JStr ''No extra screenshots to process. Please take additional screenshots first.'')
                         s1)
                        \<lparr>currentExtraProcessingAbortController := None\<rparr>
                    else
                      (case newAbortController s1 of
                         (controller, s2) \<Rightarrow>
                           (let s3 = s2\<lparr>currentExtraProcessingAbortController := Some controller\<rparr>;
                                s4 = webContents_send DEBUG_START JNull s3;
                                screenshotsData = readScreenshots (files s4) extraScreenshots;
                                s5 = processExtraScreenshotsHelper env screenshotsData controller s4
                            in s5\<lparr>currentExtraProcessingAbortController := None\<rparr>)))))"

subsection \<open>The initial run, await by await\<close>

text \<open>
  \<^verbatim>\<open>removeMyThoughtsSection\<close>: eight patterns, each cutting its first match, then \<^verbatim>\<open>trim\<close>.
  The first two end at the next \<^verbatim>\<open># \<close> or \<^verbatim>\<open>## \<close>, the others at the next blank line; all
  carry the \<^verbatim>\<open>i\<close> flag.
\<close>

definition untilHeading :: "string \<Rightarrow> regex" where
  "untilHeading label =
     Seqs [Lit label, Star False (Cls False [CSpace, CNotSpace]),
           Look (Alts [Lit ''# '', Lit ''## '', Eol])]"

definition untilBlankLine :: "string \<Rightarrow> regex" where
  "untilBlankLine label =
     Seqs [Lit label, Star False (Cls False [CSpace, CNotSpace]),
           Look (Alts [Lit [CHR 0x0A, CHR 0x0A], Eol])]"

definition myThoughtsPatterns :: "regex list" where
  "myThoughtsPatterns =
     [untilHeading ''# My Thoughts'', untilHeading ''## My Thoughts'',
      untilBlankLine ''My Thoughts:'', untilBlankLine ''My Analysis:'',
      untilBlankLine ''My Approach:'', untilBlankLine ''Thoughts:'',
      untilBlankLine ''Problem Understanding:'', untilBlankLine ''Problem Analysis:'']"

definition removeMyThoughtsSection :: "string \<Rightarrow> string" where
  "removeMyThoughtsSection solution =
     trim (foldl (\<lambda>cleanedSolution pattern. re_remove_first pattern flag_i cleanedSolution)
             solution myThoughtsPatterns)"

text \<open>
  An \<^verbatim>\<open>async\<close> function runs until its next \<^verbatim>\<open>await\<close> and goes on when the awaited promise
  settles; whatever else the main process does happens in between. A run of
  \<^verbatim>\<open>processScreenshots\<close> that is suspended is one of these points, with the local values it
  holds: its signal, and
  \<^item> the file being recognised, the paths still to come and the texts so far;
  \<^item> the combined text whose analysis request is in flight;
  \<^item> the problem info whose solution request is in flight (in \<^verbatim>\<open>generateSolutionsHelper\<close>).
  The paths are those of the queue when the run started. (The loop of the code reads the
  array itself, so a capture pushed while a recognition is awaited would still be
  visited; the runs considered below enqueue nothing while a run is suspended.)
\<close>

datatype run_point =
    AwaitOcr nat string "string list" "string list"
  | AwaitAnalysis nat string
  | AwaitSolution nat jsval
  | Finished

text \<open>
  Recognition reads the original capture when it exists: the path with its first
  \<^verbatim>\<open>/normalized/\<close> replaced by \<^verbatim>\<open>/screenshots/\<close>; otherwise the queued path itself.
\<close>

definition ocrTarget :: "app_state \<Rightarrow> string \<Rightarrow> string" where
  "ocrTarget s path =
     (let originalPath = replaceFirst path ''/normalized/'' ''/screenshots/''
      in if files s originalPath = None then path else originalPath)"

text \<open>The outer \<^verbatim>\<open>catch\<close> of \<^verbatim>\<open>processScreenshots\<close>: it reports every error, whatever the signal says.\<close>

definition processScreenshots_catch :: "string \<Rightarrow> app_state \<Rightarrow> app_state" where
  "processScreenshots_catch e s =
     (if mainWindow s = LiveWindow then webContents_send INITIAL_SOLUTION_ERROR (JStr e) s else s)"

text \<open>
  The start of \<^verbatim>\<open>processScreenshots\<close>, up to the first \<^verbatim>\<open>await\<close>: abort the controller of
  the run before (it is never forgotten here), make a new one, and begin with the first
  path of the queue.
\<close>

definition processScreenshots :: "app_state \<Rightarrow> app_state \<times> run_point" where
  "processScreenshots s =
     (let s1 = (case currentProcessingAbortController s of None \<Rightarrow> s | Some c \<Rightarrow> abort c s)
      in case newAbortController s1 of
           (signal, s2) \<Rightarrow>
             (let s3 = s2\<lparr>currentProcessingAbortController := Some signal\<rparr>
              in if mainWindow s3 = NoWindow then (s3, Finished)
                 else
                   (case getScreenshotQueue s3 of
                      [] \<Rightarrow> (webContents_send NO_SCREENSHOTS JNull s3, Finished)
                    | path # paths \<Rightarrow>
                        (let s4 = webContents_send INITIAL_START JNull s3
                         in (s4, AwaitOcr signal (ocrTarget s4 path) paths [])))))"

text \<open>
  \<^verbatim>\<open>generateSolutionsHelper\<close>, up to its request: nothing happens on an aborted signal, and
  the request is built from the stored problem info.
\<close>

definition minimalContext :: "jsval \<Rightarrow> jsval" where
  "minimalContext info =
     JObj (concat (map (\<lambda>k. case getProp info k of None \<Rightarrow> [] | Some v \<Rightarrow> [(k, v)])
                     [''title'', ''description'', ''code'']))"

definition generateSolutionsHelper :: "nat \<Rightarrow> app_state \<Rightarrow> app_state \<times> run_point" where
  "generateSolutionsHelper signal s =
     (if signalAborted signal s then (s, Finished)
      else if mainWindow s = NoWindow then (s, Finished)
      else
        (case (case problemInfo s of
                 None \<Rightarrow> None
               | Some info \<Rightarrow> if truthy info then Some info else None) of
           None \<Rightarrow>
             (webContents_send INITIAL_SOLUTION_ERROR
                (JStr ''No problem information available. Please process screenshots first.'') s,
              Finished)
         | Some info \<Rightarrow> (s, AwaitSolution signal info)))"

text \<open>
  One step of a suspended run: the awaited promise settles and the run goes on to its
  next \<^verbatim>\<open>await\<close> or to its end. The signal is read in the state of that moment.
\<close>

fun resume :: "proc_env \<Rightarrow> run_point \<Rightarrow> app_state \<Rightarrow> app_state \<times> run_point" where
  "resume env (AwaitOcr signal target paths texts) s =
     (case recognize env target of
        Inl e \<Rightarrow> (processScreenshots_catch e s, Finished)
      | Inr recognised \<Rightarrow>
          (case paths of
             path # later \<Rightarrow> (s, AwaitOcr signal (ocrTarget s path) later (texts @ [recognised]))
           | [] \<Rightarrow> (s, AwaitAnalysis signal (join [CHR 0x0A, CHR 0x0A] (texts @ [recognised])))))"
| "resume env (AwaitAnalysis signal combinedText) s =
     (case post env (signalAborted signal s) (AnalysisRequest combinedText) of
        Inl e \<Rightarrow> (processScreenshots_catch e s, Finished)
      | Inr responseText \<Rightarrow>
          (let info = interpretResponse (json_parse env) (thrown env responseText) responseText;
               s1 = webContents_send PROBLEM_EXTRACTED info s;
               s2 = s1\<lparr>problemInfo := Some info\<rparr>;
               s3 = app_setView Solutions s2
           in generateSolutionsHelper signal s3))"
| "resume env (AwaitSolution signal info) s =
     (case post env (signalAborted signal s) (SolutionRequest (minimalContext info)) of
        Inl e \<Rightarrow>
          if signalAborted signal s then (s, Finished)
          else (webContents_send INITIAL_SOLUTION_ERROR (JStr (orElse e ''Unknown error'')) s, Finished)
      | Inr generatedSolution \<Rightarrow>
          (app_setView Solutions
             (webContents_send SOLUTION_SUCCESS
                (JObj [(''solution'', JStr (removeMyThoughtsSection generatedSolution)),
                       (''language'', JStr ''auto''),
                       (''problem'', info)]) s),
           Finished))"
| "resume env Finished s = (s, Finished)"

text \<open>A run left alone until it ends: at most one step for each path and two requests.\<close>

fun stepsLeft :: "run_point \<Rightarrow> nat" where
  "stepsLeft (AwaitOcr signal target paths texts) = length paths + 3"
| "stepsLeft (AwaitAnalysis signal combinedText) = 2"
| "stepsLeft (AwaitSolution signal info) = 1"
| "stepsLeft Finished = 0"

fun resumeN :: "nat \<Rightarrow> proc_env \<Rightarrow> run_point \<Rightarrow> app_state \<Rightarrow> app_state \<times> run_point" where
  "resumeN 0 env point s = (s, point)"
| "resumeN (Suc n) env point s = (case resume env point s of (s1, point1) \<Rightarrow> resumeN n env point1 s1)"

definition finish :: "proc_env \<Rightarrow> run_point \<Rightarrow> app_state \<Rightarrow> app_state" where
  "finish env point s = fst (resumeN (stepsLeft point) env point s)"

subsection \<open>Properties of the debug pipeline\<close>

text \<open>
  The helper on its own does what the debug pipeline is meant to do. With a problem info
  in place and every analysis arriving, the analyses are joined into \<^verbatim>\<open>extraInfo\<close> and every
  other key keeps its value; when an analysis fails, the problem info is left as it was.
\<close>

lemma map_of_assign: "map_of (assign kvs k v) k' = (if k' = k then Some v else map_of kvs k')"
  by (induction kvs) auto

lemma helper_merges:
  assumes "\<not> signalAborted signal s" "mainWindow s = LiveWindow"
    "problemInfo s = Some (JObj kvs)"
    "analyseExtra env False screenshots [] (files s) = (Inr analyses, fs1)"
  shows "problemInfo (processExtraScreenshotsHelper env screenshots signal s)
           = Some (JObj (assign kvs ''extraInfo'' (JStr (join [CHR 0x0A, CHR 0x0A] analyses))))"
  using assms
  by (simp add: processExtraScreenshotsHelper_def Let_def webContents_send_def)

lemma helper_failure_keeps_problemInfo:
  assumes "analyseExtra env (signalAborted signal s) screenshots [] (files s) = (Inl e, fs1)"
  shows "problemInfo (processExtraScreenshotsHelper env screenshots signal s) = problemInfo s"
  using assms
  by (auto simp: processExtraScreenshotsHelper_def Let_def webContents_send_def signalAborted_def
      split: option.splits)

text \<open>
  The entry point undoes it: \<^verbatim>\<open>cancelOngoingRequests\<close> has cleared the problem info before
  the helper looks for it, on every path and for every state.
\<close>

lemma cancelOngoingRequests_clears: "problemInfo (cancelOngoingRequests s) = None"
  by (simp add: cancelOngoingRequests_def Let_def webContents_send_def abort_def split: option.splits)

lemma helper_keeps_None:
  "problemInfo s = None \<Longrightarrow> problemInfo (processExtraScreenshotsHelper env sd signal s) = None"
  by (simp add: processExtraScreenshotsHelper_def webContents_send_def)

lemma processExtraScreenshots_clears: "problemInfo (processExtraScreenshots env s) = None"
  by (auto simp: processExtraScreenshots_def Let_def cancelOngoingRequests_clears
      webContents_send_def newAbortController_def helper_keeps_None
      split: option.splits prod.splits)

text \<open>A state in \<^verbatim>\<open>solutions\<close> view with a problem info and one capture in the secondary queue.\<close>

definition solvedState :: app_state where
  "solvedState = initialState
     \<lparr>screenshotHelper := Some \<lparr>screenshotQueue = [''/normalized/a.png''],
                               extraScreenshotQueue = [''/extra/b.png''], view = Solutions\<rparr>,
      state_view := Solutions,
      problemInfo := Some (JObj [(''title'', JStr ''Two Sum''), (''code'', JStr ''f(x)'')]),
      files := [''/extra/b.png'' \<mapsto> ''png'']\<rparr>"

definition modelEnv :: proc_env where
  "modelEnv =
     \<lparr>os = noMagick,
      isInitialized = (\<lambda>k. True),
      recognize = (\<lambda>p. Inr ''two sum''),
      generate = (\<lambda>r. case r of
                     AnalysisRequest t \<Rightarrow> Inr ''Title: Two Sum problem''
                   | SolutionRequest c \<Rightarrow> Inr ''use a map''
                   | ImageRequest i \<Rightarrow> Inr ''the trace shows an index error''),
      json_parse = (\<lambda>t. None),
      thrown = (\<lambda>t. None)\<rparr>"

lemma helper_alone_merges:
  "problemInfo (processExtraScreenshotsHelper modelEnv [(''/extra/b.png'', ''png'')] 0 solvedState)
     = Some (JObj [(''title'', JStr ''Two Sum''), (''code'', JStr ''f(x)''),
                   (''extraInfo'', JStr ''the trace shows an index error'')]) \<and>
   effects (processExtraScreenshotsHelper modelEnv [(''/extra/b.png'', ''png'')] 0 solvedState)
     = [Send DEBUG_SUCCESS (JObj [(''title'', JStr ''Two Sum''), (''code'', JStr ''f(x)''),
                                  (''extraInfo'', JStr ''the trace shows an index error'')])]"
  by code_simp

text \<open>
  Claim C1 fails on the code. The debug pipeline is triggered with a problem info in
  place, a capture in the secondary queue and a model that answers: the renderer is told
  that the run has started and then that there is no problem information to enhance,
  and the problem info that existed is gone.
\<close>

theorem debug_trigger_clears_problemInfo:
  "problemInfo solvedState = Some (JObj [(''title'', JStr ''Two Sum''), (''code'', JStr ''f(x)'')]) \<and>
   problemInfo (processExtraScreenshots modelEnv solvedState) = None \<and>
   effects (processExtraScreenshots modelEnv solvedState)
     = [Send DEBUG_START JNull,
        Send DEBUG_ERROR (JStr ''No problem information available to enhance.'')]"
  by code_simp

subsection \<open>Properties of a superseded initial run\<close>

text \<open>
  After its signal is aborted a run sends no \<^verbatim>\<open>PROBLEM_EXTRACTED\<close>: whatever it still sends
  is one \<^verbatim>\<open>INITIAL_SOLUTION_ERROR\<close>. A run suspended in \<^verbatim>\<open>generateSolutionsHelper\<close> ends in
  silence, as that function's \<^verbatim>\<open>catch\<close> asks the signal first.
\<close>

lemma resume_aborted_solution_silent:
  "signalAborted signal s \<Longrightarrow> resume env (AwaitSolution signal info) s = (s, Finished)"
  by (simp add: post_def)

lemma resume_aborted_analysis_reports:
  "signalAborted signal s \<Longrightarrow> mainWindow s = LiveWindow \<Longrightarrow>
   resume env (AwaitAnalysis signal combinedText) s
     = (webContents_send INITIAL_SOLUTION_ERROR (JStr ''canceled'') s, Finished)"
  by (simp add: post_def processScreenshots_catch_def)

fun pointSignal :: "run_point \<Rightarrow> nat option" where
  "pointSignal (AwaitOcr signal target paths texts) = Some signal"
| "pointSignal (AwaitAnalysis signal combinedText) = Some signal"
| "pointSignal (AwaitSolution signal info) = Some signal"
| "pointSignal Finished = None"

lemma resumeN_Finished: "resumeN n env Finished s = (s, Finished)"
  by (induction n) simp_all

lemma catch_effects:
  "effects (processScreenshots_catch e s) = effects s \<or>
   effects (processScreenshots_catch e s) = effects s @ [Send INITIAL_SOLUTION_ERROR (JStr e)]"
  by (simp add: processScreenshots_catch_def webContents_send_def)

lemma superseded_run_effects:
  assumes "pointSignal point = Some signal" "signalAborted signal s"
  shows "effects (fst (resumeN n env point s)) = effects s \<or>
         (\<exists>e. effects (fst (resumeN n env point s))
                = effects s @ [Send INITIAL_SOLUTION_ERROR (JStr e)])"
  using assms
proof (induction n arbitrary: point)
  case 0
  then show ?case by simp
next
  case (Suc n)
  show ?case
  proof (cases point)
    case (AwaitOcr sig target paths texts)
    with Suc.prems have sig: "sig = signal" by simp
    show ?thesis
    proof (cases "recognize env target")
      case (Inl e)
      with AwaitOcr catch_effects [of e s] show ?thesis
        by (auto simp: resumeN_Finished)
    next
      case (Inr recognised)
      show ?thesis
      proof (cases paths)
        case Nil
        with AwaitOcr Inr sig Suc.IH [of "AwaitAnalysis signal (join [CHR 0x0A, CHR 0x0A] (texts @ [recognised]))"]
          Suc.prems(2)
        show ?thesis by simp
      next
        case (Cons path later)
        with AwaitOcr Inr sig
          Suc.IH [of "AwaitOcr signal (ocrTarget s path) later (texts @ [recognised])"] Suc.prems(2)
        show ?thesis by simp
      qed
    qed
  next
    case (AwaitAnalysis sig combinedText)
    with Suc.prems catch_effects [of "''canceled''" s] show ?thesis
      by (auto simp: post_def resumeN_Finished)
  next
    case (AwaitSolution sig info)
    with Suc.prems show ?thesis
      by (simp add: post_def resumeN_Finished)
  next
    case Finished
    with Suc.prems show ?thesis by simp
  qed
qed

text \<open>The state in \<^verbatim>\<open>queue\<close> view with one capture in the primary queue.\<close>

definition queuedState :: app_state where
  "queuedState = initialState
     \<lparr>screenshotHelper := Some \<lparr>screenshotQueue = [''/normalized/a.png''],
                               extraScreenshotQueue = [], view = Queue\<rparr>\<rparr>"

text \<open>Left alone, the run publishes the problem and then the solution.\<close>

lemma undisturbed_run:
  "map (\<lambda>e. case e of Send c v \<Rightarrow> Some c | _ \<Rightarrow> None)
       (effects (finish modelEnv (snd (processScreenshots queuedState))
                   (fst (processScreenshots queuedState))))
   = [Some INITIAL_START, Some PROBLEM_EXTRACTED, Some SOLUTION_SUCCESS]"
  by code_simp

text \<open>
  A supersession, step by step: run A starts and its recognition finishes, so that its
  analysis request is in flight; run B starts, which aborts the signal of A; then the
  request of A settles.
\<close>

definition runA_started :: "app_state \<times> run_point" where
  "runA_started = processScreenshots queuedState"

definition runA_recognised :: "app_state \<times> run_point" where
  "runA_recognised = resume modelEnv (snd runA_started) (fst runA_started)"

definition runB_started :: "app_state \<times> run_point" where
  "runB_started = processScreenshots (fst runA_recognised)"

definition runA_settled :: "app_state \<times> run_point" where
  "runA_settled = resume modelEnv (snd runA_recognised) (fst runB_started)"

text \<open>
  Claim C2 fails on the code. When a run is superseded while its analysis request is in
  flight, the rejection of that request lands in the outer \<^verbatim>\<open>catch\<close> of
  \<^verbatim>\<open>processScreenshots\<close>, which does not ask the signal: after run B has started, the
  superseded run A sends \<^verbatim>\<open>INITIAL_SOLUTION_ERROR\<close> with the message \<^verbatim>\<open>canceled\<close>.
\<close>

theorem superseded_run_sends_error:
  "snd runA_recognised = AwaitAnalysis 0 ''two sum'' \<and>
   signalAborted 0 (fst runB_started) \<and>
   effects (fst runB_started) = [Send INITIAL_START JNull, Send INITIAL_START JNull] \<and>
   effects (fst runA_settled)
     = effects (fst runB_started) @ [Send INITIAL_SOLUTION_ERROR (JStr ''canceled'')] \<and>
   snd runA_settled = Finished"
  by code_simp

end
